theory Spec2Isabelle
  imports Complex_Main "HOL-Library.Signed_Division"
begin

section \<open>The price update script \<^verbatim>\<open>switchboard/script/run.ts\<close>\<close>

text \<open>
  The script is one linear workflow around two pure helpers, \<^verbatim>\<open>normalizeFeedHash\<close> and
  \<^verbatim>\<open>formatValue\<close>. A JavaScript string is modelled as a \<^typ>\<open>string\<close> (a list of
  characters), a \<^verbatim>\<open>bigint\<close> as an \<^typ>\<open>int\<close>.
\<close>

subsection \<open>String primitives of the language\<close>

text \<open>\<^verbatim>\<open>s.startsWith(p)\<close>: the first \<open>length p\<close> characters of \<open>s\<close> are \<open>p\<close>.\<close>

definition startsWith :: "string \<Rightarrow> string \<Rightarrow> bool" where
  "startsWith p s = (take (length p) s = p)"

text \<open>\<^verbatim>\<open>s.padStart(n, c)\<close> with a pad string of one character.\<close>

definition padStart :: "nat \<Rightarrow> char \<Rightarrow> string \<Rightarrow> string" where
  "padStart n c s = replicate (n - length s) c @ s"

text \<open>\<^verbatim>\<open>s.replace(/0+$/, '')\<close>: the run of zeros that ends the string is removed.\<close>

definition replace_trailing_zeros :: "string \<Rightarrow> string" where
  "replace_trailing_zeros s = rev (dropWhile (\<lambda>c. c = CHR ''0'') (rev s))"

text \<open>
  \<^verbatim>\<open>toString()\<close> of a \<^verbatim>\<open>bigint\<close>: the decimal digits, most significant first, after a
  minus sign for a negative value.
\<close>

definition digit_char :: "nat \<Rightarrow> char" where
  "digit_char d = ''0123456789'' ! d"

function nat_toString :: "nat \<Rightarrow> string" where
  "nat_toString n =
     (if n < 10 then [digit_char n] else nat_toString (n div 10) @ [digit_char (n mod 10)])"
  by pat_completeness auto
termination
  by (relation "measure id") auto

declare nat_toString.simps [simp del]

definition bigint_toString :: "int \<Rightarrow> string" where
  "bigint_toString i =
     (if i < 0 then CHR ''-'' # nat_toString (nat (- i)) else nat_toString (nat i))"

subsection \<open>Utility functions\<close>

text \<open>
  \<^verbatim>\<open>function normalizeFeedHash(hash) { return hash.startsWith('0x') ? hash : '0x' + hash; }\<close>
\<close>

definition normalizeFeedHash :: "string \<Rightarrow> string" where
  "normalizeFeedHash hash = (if startsWith ''0x'' hash then hash else ''0x'' @ hash)"

text \<open>
  \<^verbatim>\<open>formatValue(value, decimals = 18)\<close>. Division and remainder of \<^verbatim>\<open>bigint\<close> round
  towards zero (\<open>sdiv\<close>, \<open>smod\<close>); \<open>decimals\<close> is a natural number, as
  \<^verbatim>\<open>10n ** BigInt(decimals)\<close> raises for anything else.
\<close>

definition formatValue :: "int \<Rightarrow> nat \<Rightarrow> string" where
  "formatValue v decimals =
     (let divisor = 10 ^ decimals;
          whole = v sdiv divisor;
          fraction = v smod divisor
      in if fraction = 0 then bigint_toString whole
         else let fractionStr = padStart decimals (CHR ''0'') (bigint_toString fraction);
                  trimmed = replace_trailing_zeros fractionStr
              in bigint_toString whole @ ''.'' @ trimmed)"

text \<open>
  \<^verbatim>\<open>const networkKey = config.network === 'monad-testnet' ? 'monadTestnet' : 'monadTestnet';\<close>
  (line 203 of the script), as a function of the network selector.
\<close>

definition networkKey :: "string \<Rightarrow> string" where
  "networkKey network =
     (if network = ''monad-testnet'' then ''monadTestnet'' else ''monadTestnet'')"


subsection \<open>Observers used to state properties of the helpers\<close>

definition is_hex :: "char \<Rightarrow> bool" where
  "is_hex c = (c \<in> set ''0123456789abcdefABCDEF'')"

definition is_upper_hex :: "char \<Rightarrow> bool" where
  "is_upper_hex c = (c \<in> set ''ABCDEF'')"

text \<open>No hexadecimal digit of the string is an upper-case letter.\<close>

definition lowercase_hex :: "string \<Rightarrow> bool" where
  "lowercase_hex s = list_all (\<lambda>c. \<not> is_upper_hex c) s"

text \<open>The canonical form the specification names: the prefix, and lower case after it.\<close>

definition canonical_prefixed_lowercase :: "string \<Rightarrow> bool" where
  "canonical_prefixed_lowercase s = (startsWith ''0x'' s \<and> lowercase_hex s)"

text \<open>What follows the first decimal point of a string (empty when there is none).\<close>

definition fraction_part :: "string \<Rightarrow> string" where
  "fraction_part s = drop 1 (dropWhile (\<lambda>c. c \<noteq> CHR ''.'') s)"

text \<open>The default feed identifier of the script (BTC/USD), without its prefix.\<close>

definition btc_usd_hash :: string where
  "btc_usd_hash = ''4cd1cad962425681af07b9254b7d804de3ca3446fbfd1371bb258d2c75059812''"

subsection \<open>Reading a decimal string back\<close>

text \<open>
  Modelled from the spec: the repository has no parser for the strings that
  \<^verbatim>\<open>formatValue\<close> writes; the specification speaks of re-parsing the decimal string at
  the same scale. \<open>parseValue decimals s\<close> reads an optional minus sign, a non-empty run
  of decimal digits and, after a decimal point, between one and \<open>decimals\<close> decimal
  digits, and returns the integer at the scale \<open>10 ^ decimals\<close>; any other string is
  rejected.
\<close>

definition is_digit :: "char \<Rightarrow> bool" where
  "is_digit c = (c \<in> set ''0123456789'')"

definition digit_value :: "char \<Rightarrow> nat" where
  "digit_value c = of_char c - 48"

definition digits_value :: "string \<Rightarrow> nat" where
  "digits_value s = foldl (\<lambda>a c. 10 * a + digit_value c) 0 s"

definition parseValue :: "nat \<Rightarrow> string \<Rightarrow> int option" where
  "parseValue decimals s =
     (let negative = startsWith ''-'' s;
          body = (if negative then drop 1 s else s);
          whole = takeWhile (\<lambda>c. c \<noteq> CHR ''.'') body;
          rest = dropWhile (\<lambda>c. c \<noteq> CHR ''.'') body;
          fraction = drop 1 rest
      in if whole = [] \<or> \<not> list_all is_digit whole then None
         else if rest \<noteq> [] \<and> (fraction = [] \<or> \<not> list_all is_digit fraction
                              \<or> decimals < length fraction) then None
         else let magnitude = int (digits_value whole) * 10 ^ decimals
                    + int (digits_value fraction) * 10 ^ (decimals - length fraction)
              in Some (if negative then - magnitude else magnitude))"

subsection \<open>Canonical decimal strings\<close>

text \<open>
  The part of a string before its first decimal point, and the shape of a canonical
  decimal numeral: a whole part of decimal digits that is not empty and has no leading
  zero (unless it is \<open>0\<close> itself) and, if there is a decimal point, exactly the whole part,
  the point and a fraction of decimal digits that is not empty and does not end with a
  zero. There is no sign and no other character.
\<close>

definition whole_part :: "string \<Rightarrow> string" where
  "whole_part s = takeWhile (\<lambda>c. c \<noteq> CHR ''.'') s"

definition canonical_decimal :: "string \<Rightarrow> bool" where
  "canonical_decimal s =
     (let w = whole_part s; f = fraction_part s
      in w \<noteq> [] \<and> list_all is_digit w \<and> (w = ''0'' \<or> hd w \<noteq> CHR ''0'')
         \<and> (if CHR ''.'' \<in> set s
             then s = w @ ''.'' @ f \<and> f \<noteq> [] \<and> list_all is_digit f \<and> last f \<noteq> CHR ''0''
             else s = w))"

section \<open>The update workflow\<close>

text \<open>
  The workflow talks to the file system, to the \<^verbatim>\<open>ethers\<close> library, to the oracle
  gateway and to the ledger. None of these is code of the script: each is a field of the
  record \<open>world\<close> below, which answers a call from the arguments the script passes.
  A run of the script in a world is then a value: what it returns or throws, and the list
  of the calls and error-stream lines it made, in order.

  The narration on the standard output (\<^verbatim>\<open>console.log\<close>) decides nothing and is not
  recorded; an expression evaluated for it that can throw is kept as a step.
\<close>

subsection \<open>Errors, events and steps\<close>

text \<open>A thrown \<^verbatim>\<open>Error\<close> object: its message and, when it has one, its stack.\<close>

record js_error =
  message :: string
  stack :: "string option"

text \<open>
  A parsed JSON document. A number is kept as the real it denotes: the script only asks
  whether a value is truthy.
\<close>

datatype json =
    JNull
  | JBool bool
  | JNum real
  | JStr string
  | JArr "json list"
  | JObj "(string \<times> json) list"

text \<open>
  What a run does to the outside, in order. A contract call names the contract by the
  address value handed to \<^verbatim>\<open>new ethers.Contract\<close> (\<open>None\<close> is \<^verbatim>\<open>undefined\<close>).
\<close>

datatype event =
    Stderr string
  | Fs_existsSync
  | Fs_readFileSync
  | Call_getBalance string
  | Call_fetchOracleQuote "string list" string
  | Call_getFee "json option" "string list"
  | Call_updatePrices "json option" "string list" "string list" int
  | Call_wait string
  | Call_getPrice "json option" string
  | Call_isPriceFresh "json option" string
  | Call_getPriceAge "json option" string
  | Call_maxPriceAge "json option"
  | Call_maxDeviationBps "json option"

fun is_network_call :: "event \<Rightarrow> bool" where
  "is_network_call (Stderr _) = False"
| "is_network_call Fs_existsSync = False"
| "is_network_call Fs_readFileSync = False"
| "is_network_call _ = True"

fun is_gateway_call :: "event \<Rightarrow> bool" where
  "is_gateway_call (Call_fetchOracleQuote _ _) = True"
| "is_gateway_call _ = False"

fun is_submission :: "event \<Rightarrow> bool" where
  "is_submission (Call_updatePrices _ _ _ _) = True"
| "is_submission _ = False"

text \<open>A step: the value it returns or the error it throws, and the events it made.\<close>

type_synonym 'a io = "(js_error + 'a) \<times> event list"

definition ret :: "'a \<Rightarrow> 'a io" where
  "ret x = (Inr x, [])"

definition throw :: "js_error \<Rightarrow> 'a io" where
  "throw e = (Inl e, [])"

definition emit :: "event \<Rightarrow> unit io" where
  "emit ev = (Inr (), [ev])"

text \<open>A computation of the runtime or of a library that makes no call to the outside.\<close>

definition lift :: "js_error + 'a \<Rightarrow> 'a io" where
  "lift r = (r, [])"

text \<open>A constructor of a library: it throws or it does not.\<close>

definition construct :: "js_error option \<Rightarrow> unit io" where
  "construct r = (case r of None \<Rightarrow> (Inr (), []) | Some e \<Rightarrow> (Inl e, []))"

text \<open>A call to the outside: the call is recorded, then it returns or throws.\<close>

definition call :: "event \<Rightarrow> js_error + 'a \<Rightarrow> 'a io" where
  "call ev r = (r, [ev])"

text \<open>Sequencing: the second step runs only when the first one returned.\<close>

definition bnd :: "'a io \<Rightarrow> ('a \<Rightarrow> 'b io) \<Rightarrow> 'b io" where
  "bnd m k =
     (case m of
        (Inl e, t) \<Rightarrow> (Inl e, t)
      | (Inr x, t) \<Rightarrow> (case k x of (r, t') \<Rightarrow> (r, t @ t')))"

text \<open>\<^verbatim>\<open>try { m } catch (error) { h }\<close>\<close>

definition try_catch :: "'a io \<Rightarrow> (js_error \<Rightarrow> 'a io) \<Rightarrow> 'a io" where
  "try_catch m h =
     (case m of
        (Inl e, t) \<Rightarrow> (case h e of (r, t') \<Rightarrow> (r, t @ t'))
      | (Inr x, t) \<Rightarrow> (Inr x, t))"

subsection \<open>Data of the script\<close>

record NetworkConfig =
  name :: string
  chainId :: int
  explorer :: string
  switchboard :: string
  verifier :: "string option"
  queue :: "string option"

definition NETWORKS :: "(string \<times> NetworkConfig) list" where
  "NETWORKS =
     [(''monad-testnet'',
        \<lparr>name = ''Monad Testnet'', chainId = 10143,
         explorer = ''https://testnet.monadscan.io'',
         switchboard = ''0xD3860E2C66cBd5c969Fa7343e6912Eff0416bA33'',
         verifier = None, queue = None\<rparr>),
      (''monad-mainnet'',
        \<lparr>name = ''Monad Mainnet'', chainId = 143,
         explorer = ''https://mainnet-beta.monvision.io'',
         switchboard = ''0xB7F03eee7B9F56347e32cC71DaD65B303D5a0E67'',
         verifier = None, queue = None\<rparr>)]"

text \<open>
  \<^verbatim>\<open>NETWORKS[key]\<close> reads a property of an object literal. A key of the table gives its
  entry. The other keys that are not \<^verbatim>\<open>undefined\<close> are the properties every object
  inherits from \<^verbatim>\<open>Object.prototype\<close>: functions (whose \<^verbatim>\<open>name\<close> is the key, or
  \<^verbatim>\<open>Object\<close> for \<^verbatim>\<open>constructor\<close>) and, for \<^verbatim>\<open>__proto__\<close>, the prototype object itself,
  which has no \<^verbatim>\<open>name\<close>. None of them has one of the other fields.
\<close>

datatype networks_value = Entry NetworkConfig | Inherited "string option"

definition Object_prototype_functions :: "string list" where
  "Object_prototype_functions =
     [''__defineGetter__'', ''__defineSetter__'', ''hasOwnProperty'', ''__lookupGetter__'',
      ''__lookupSetter__'', ''isPrototypeOf'', ''propertyIsEnumerable'', ''toString'',
      ''valueOf'', ''toLocaleString'']"

definition NETWORKS_get :: "string \<Rightarrow> networks_value option" where
  "NETWORKS_get key =
     (case map_of NETWORKS key of
        Some c \<Rightarrow> Some (Entry c)
      | None \<Rightarrow>
          if key = ''__proto__'' then Some (Inherited None)
          else if key = ''constructor'' then Some (Inherited (Some ''Object''))
          else if key \<in> set Object_prototype_functions then Some (Inherited (Some key))
          else None)"

fun get_name :: "networks_value \<Rightarrow> string option" where
  "get_name (Entry c) = Some (name c)"
| "get_name (Inherited n) = n"

fun get_chainId :: "networks_value \<Rightarrow> int option" where
  "get_chainId (Entry c) = Some (chainId c)"
| "get_chainId (Inherited n) = None"

fun get_switchboard :: "networks_value \<Rightarrow> string option" where
  "get_switchboard (Entry c) = Some (switchboard c)"
| "get_switchboard (Inherited n) = None"

text \<open>The process environment after \<^verbatim>\<open>dotenv.config()\<close>, and the configuration object.\<close>

record env =
  RPC_URL :: "string option"
  PRIVATE_KEY :: "string option"
  NETWORK :: "string option"
  FEED_HASH :: "string option"
  MAX_PRICE_AGE :: "string option"
  MAX_DEVIATION_BPS :: "string option"

record config =
  rpcUrl :: string
  privateKey :: string
  network :: string
  feedHash :: string
  maxPriceAge :: "int option"
  maxDeviationBps :: "int option"

text \<open>\<^verbatim>\<open>process.env.X || d\<close>: a variable that is unset or empty gives the default.\<close>

definition or_default :: "string option \<Rightarrow> string \<Rightarrow> string" where
  "or_default v d = (case v of None \<Rightarrow> d | Some s \<Rightarrow> if s = [] then d else s)"

text \<open>The gateway's answer, and what \<^verbatim>\<open>fetchFeedData\<close> returns from it.\<close>

record median_response =
  mr_value :: string

datatype oracle_response = OracleResponse

record oracle_quote =
  encoded :: "string option"
  medianResponses :: "median_response option list option"
  timestamp :: "int option"
  slot :: int
  oracleResponses :: "oracle_response list option"

record feedData =
  fd_feedHash :: string
  fd_value :: string
  fd_timestamp :: "int option"
  fd_slot :: int
  fd_numOracles :: nat
  fd_encoded :: string

record receipt =
  blockNumber :: int
  gasUsed :: int
  status :: "int option"
  hash :: string

subsection \<open>The world outside the script\<close>

text \<open>
  The runtime (\<open>rt_\<close>), the file system (\<open>fs_\<close>), the constructors and formatters of
  \<^verbatim>\<open>ethers\<close>, the gateway client and the ledger. \<open>rt_parseInt\<close> gives \<open>None\<close> for \<^verbatim>\<open>NaN\<close>;
  \<open>rt_stack\<close> is the stack that \<^verbatim>\<open>new Error(m)\<close> captures; \<open>rt_String\<close> is the conversion
  of a value inside a template literal, which throws for an object that has no primitive
  value. A call of \<^verbatim>\<open>ethers\<close> that fails throws: \<open>tx_wait\<close> is \<^verbatim>\<open>tx.wait()\<close>, which throws
  for a transaction that was reverted.
\<close>

record world =
  rt_parseInt :: "string \<Rightarrow> int option"
  rt_stack :: "string \<Rightarrow> string"
  rt_BigInt :: "string \<Rightarrow> js_error + int"
  rt_String :: "json option \<Rightarrow> js_error + string"
  rt_JSON_parse :: "string \<Rightarrow> js_error + json"
  fs_existsSync :: bool
  fs_readFileSync :: "js_error + string"
  ethers_Network :: "string option \<Rightarrow> int option \<Rightarrow> js_error option"
  ethers_JsonRpcProvider :: "string \<Rightarrow> js_error option"
  ethers_Wallet :: "string \<Rightarrow> js_error + string"
  ethers_Contract :: "json option \<Rightarrow> js_error option"
  ethers_formatEther :: "int \<Rightarrow> string"
  provider_getBalance :: "string \<Rightarrow> js_error + int"
  crossbar_fetchOracleQuote :: "string list \<Rightarrow> string \<Rightarrow> js_error + oracle_quote"
  switchboard_getFee :: "json option \<Rightarrow> string list \<Rightarrow> js_error + int"
  consumer_updatePrices ::
    "json option \<Rightarrow> string list \<Rightarrow> string list \<Rightarrow> int \<Rightarrow> js_error + string"
  tx_wait :: "string \<Rightarrow> js_error + receipt"
  consumer_getPrice :: "json option \<Rightarrow> string \<Rightarrow> js_error + int \<times> int \<times> int"
  consumer_isPriceFresh :: "json option \<Rightarrow> string \<Rightarrow> js_error + bool"
  consumer_getPriceAge :: "json option \<Rightarrow> string \<Rightarrow> js_error + int"
  consumer_maxPriceAge :: "json option \<Rightarrow> js_error + int"
  consumer_maxDeviationBps :: "json option \<Rightarrow> js_error + int"

text \<open>\<^verbatim>\<open>new Error(m)\<close>, and the errors the runtime itself throws.\<close>

definition new_Error :: "world \<Rightarrow> string \<Rightarrow> js_error" where
  "new_Error w m = \<lparr>message = m, stack = Some (rt_stack w m)\<rparr>"

definition RangeError_invalid_time :: "world \<Rightarrow> js_error" where
  "RangeError_invalid_time w = new_Error w ''Invalid time value''"

definition TypeError_read_of :: "world \<Rightarrow> string \<Rightarrow> string \<Rightarrow> js_error" where
  "TypeError_read_of w v k =
     new_Error w (''Cannot read properties of '' @ v @ '' (reading '' @ [CHR 0x27] @ k
                  @ [CHR 0x27] @ '')'')"

text \<open>The cross mark that starts the script's own error messages (U+274C, in UTF-8).\<close>

definition cross_mark :: string where
  "cross_mark = [CHR 0xE2, CHR 0x9D, CHR 0x8C]"

definition newline :: string where
  "newline = [CHR 0x0A]"

text \<open>
  \<^verbatim>\<open>new Date(ms).toISOString()\<close> throws a \<^verbatim>\<open>RangeError\<close> for a time value that is
  \<^verbatim>\<open>NaN\<close> (\<open>None\<close>) or beyond 8.64e15 milliseconds from the epoch.
\<close>

definition Date_toISOString :: "world \<Rightarrow> int option \<Rightarrow> unit io" where
  "Date_toISOString w ms =
     (case ms of
        None \<Rightarrow> throw (RangeError_invalid_time w)
      | Some t \<Rightarrow>
          if \<bar>t\<bar> > 8640000000000000 then throw (RangeError_invalid_time w) else ret ())"

text \<open>
  Truthiness, and the read of a property that is not built in (as \<^verbatim>\<open>monadTestnet\<close>,
  \<^verbatim>\<open>SwitchBoardTest\<close> and \<^verbatim>\<open>address\<close>) from a value that is not \<^verbatim>\<open>null\<close>: only an object
  has it, and \<^verbatim>\<open>JSON.parse\<close> keeps the last of several members with one key.
\<close>

fun truthy :: "json \<Rightarrow> bool" where
  "truthy JNull = False"
| "truthy (JBool b) = b"
| "truthy (JNum x) = (x \<noteq> 0)"
| "truthy (JStr s) = (s \<noteq> [])"
| "truthy (JArr xs) = True"
| "truthy (JObj kvs) = True"

fun get_member :: "json \<Rightarrow> string \<Rightarrow> json option" where
  "get_member (JObj kvs) k = map_of (rev kvs) k"
| "get_member _ k = None"

subsection \<open>The functions of the script\<close>

text \<open>The \<^verbatim>\<open>config\<close> object, built when the module is loaded.\<close>

definition load_config :: "world \<Rightarrow> env \<Rightarrow> config" where
  "load_config w e =
     \<lparr>rpcUrl = or_default (RPC_URL e) ''https://testnet-rpc.monad.xyz'',
      privateKey = or_default (PRIVATE_KEY e) '''',
      network = or_default (NETWORK e) ''monad-testnet'',
      feedHash = or_default (FEED_HASH e) (''0x'' @ btc_usd_hash),
      maxPriceAge = rt_parseInt w (or_default (MAX_PRICE_AGE e) ''300''),
      maxDeviationBps = rt_parseInt w (or_default (MAX_DEVIATION_BPS e) ''1000'')\<rparr>"

text \<open>\<^verbatim>\<open>loadDeployments\<close> (lines 31 to 37).\<close>

definition loadDeployments :: "world \<Rightarrow> json io" where
  "loadDeployments w =
     bnd (emit Fs_existsSync) (\<lambda>_.
     if \<not> fs_existsSync w
     then throw (new_Error w ''deployments.json not found. Please deploy the contract first.'')
     else bnd (call Fs_readFileSync (fs_readFileSync w)) (\<lambda>text.
          lift (rt_JSON_parse w text)))"

text \<open>
  \<^verbatim>\<open>fetchFeedData\<close> (lines 107 to 158); \<open>feedHashForCrossbar\<close> is its local constant of
  that name (lines 112 to 115), as a function of the argument. After the two checks of the response, the
  narration evaluates \<^verbatim>\<open>BigInt(medianResponse.value)\<close>, the ISO date of the timestamp and
  \<^verbatim>\<open>response.oracleResponses.length\<close>, each of which can throw inside the \<^verbatim>\<open>try\<close>.
\<close>

text \<open>
  \<^verbatim>\<open>response.medianResponses?.[0]\<close>: \<open>None\<close> when the list is missing or empty, or when
  its first element is \<^verbatim>\<open>null\<close>.
\<close>

definition first_medianResponse :: "oracle_quote \<Rightarrow> median_response option" where
  "first_medianResponse response =
     (case medianResponses response of
        None \<Rightarrow> None
      | Some [] \<Rightarrow> None
      | Some (m # _) \<Rightarrow> m)"

definition feedHashForCrossbar :: "string \<Rightarrow> string" where
  "feedHashForCrossbar feedHash' =
     (let normalizedFeedHash = normalizeFeedHash feedHash'
      in if startsWith ''0x'' normalizedFeedHash then drop 2 normalizedFeedHash
         else normalizedFeedHash)"

definition fetchFeedData :: "world \<Rightarrow> string \<Rightarrow> feedData io" where
  "fetchFeedData w feedHash' =
     (let normalizedFeedHash = normalizeFeedHash feedHash';
          feedHashForCrossbar' = feedHashForCrossbar feedHash'
      in try_catch
           (bnd (call (Call_fetchOracleQuote [feedHashForCrossbar'] ''mainnet'')
                   (crossbar_fetchOracleQuote w [feedHashForCrossbar'] ''mainnet'')) (\<lambda>response.
            case encoded response of
              None \<Rightarrow> throw (new_Error w ''No encoded data in response'')
            | Some enc \<Rightarrow>
                if enc = [] then throw (new_Error w ''No encoded data in response'')
                else
                  (case first_medianResponse response of
                     None \<Rightarrow> throw (new_Error w ''No median response in data'')
                   | Some medianResponse \<Rightarrow>
                       bnd (lift (rt_BigInt w (mr_value medianResponse))) (\<lambda>v.
                       bnd (Date_toISOString w
                              (map_option (\<lambda>t. t * 1000) (timestamp response))) (\<lambda>_.
                       case oracleResponses response of
                         None \<Rightarrow> throw (TypeError_read_of w ''undefined'' ''length'')
                       | Some os \<Rightarrow>
                           ret \<lparr>fd_feedHash = normalizedFeedHash,
                                fd_value = mr_value medianResponse,
                                fd_timestamp = timestamp response,
                                fd_slot = slot response,
                                fd_numOracles = length os,
                                fd_encoded = enc\<rparr>)))))
           (\<lambda>error.
              bnd (emit (Stderr (newline @ cross_mark @ '' Error fetching feed data:''))) (\<lambda>_.
              bnd (emit (Stderr (''   '' @ message error))) (\<lambda>_.
              throw (new_Error w (''Failed to fetch feed data: '' @ message error))))))"

text \<open>
  \<^verbatim>\<open>updatePrices\<close> (lines 164 to 318) is one function of seven blocks, which its
  comments number. Each block is a definition here, with the constants it reads from the
  blocks before it as arguments, and \<open>updatePrices\<close> runs them in the order of the source.
\<close>

text \<open>Step 1, validate configuration (lines 169 to 188).\<close>

definition validateConfiguration :: "world \<Rightarrow> config \<Rightarrow> networks_value io" where
  "validateConfiguration w cfg =
     (if rpcUrl cfg = []
      then throw (new_Error w (cross_mark @ '' RPC_URL environment variable is required''))
      else if privateKey cfg = []
      then throw (new_Error w (cross_mark @ '' PRIVATE_KEY environment variable is required''))
      else
        (case NETWORKS_get (network cfg) of
           None \<Rightarrow> throw (new_Error w (cross_mark @ '' Unknown network: '' @ network cfg))
         | Some networkConfig \<Rightarrow> ret networkConfig))"

text \<open>
  Step 2, load deployments (lines 190 to 214): the result is the pair of
  \<^verbatim>\<open>priceConsumerAddress\<close> and \<^verbatim>\<open>switchboardAddress\<close>. Line 204 is
  \<^verbatim>\<open>deployments[networkKey]?.SwitchBoardTest\<close>, which throws when the document is
  \<^verbatim>\<open>null\<close>; line 213 writes the first address into a template literal.
\<close>

definition loadContractAddresses ::
  "world \<Rightarrow> config \<Rightarrow> networks_value \<Rightarrow> (json option \<times> json option) io" where
  "loadContractAddresses w cfg networkConfig =
     bnd (try_catch (loadDeployments w)
            (\<lambda>error. bnd (emit (Stderr (cross_mark @ '' '' @ message error))) (\<lambda>_.
                      throw error))) (\<lambda>deployments.
     let networkKey' = networkKey (network cfg) in
     bnd (if deployments = JNull then throw (TypeError_read_of w ''null'' networkKey')
          else ret (case get_member deployments networkKey' of
                      None \<Rightarrow> None
                    | Some JNull \<Rightarrow> None
                    | Some d \<Rightarrow> get_member d ''SwitchBoardTest'')) (\<lambda>deployment.
     case deployment of
       None \<Rightarrow> throw (new_Error w (cross_mark @ '' No deployment found for '' @ networkKey'
                         @ ''. Please deploy the contract first.''))
     | Some deployment' \<Rightarrow>
         if \<not> truthy deployment'
         then throw (new_Error w (cross_mark @ '' No deployment found for '' @ networkKey'
                       @ ''. Please deploy the contract first.''))
         else
           let priceConsumerAddress = get_member deployment' ''address'';
               switchboardAddress = map_option JStr (get_switchboard networkConfig) in
           bnd (lift (rt_String w priceConsumerAddress)) (\<lambda>_.
           ret (priceConsumerAddress, switchboardAddress))))"

text \<open>Step 3, set up provider and signer (lines 216 to 231): the result is \<^verbatim>\<open>balance\<close>.\<close>

definition setupProviderAndSigner :: "world \<Rightarrow> config \<Rightarrow> networks_value \<Rightarrow> int io" where
  "setupProviderAndSigner w cfg networkConfig =
     bnd (construct (ethers_Network w (get_name networkConfig) (get_chainId networkConfig))) (\<lambda>_.
     bnd (construct (ethers_JsonRpcProvider w (rpcUrl cfg))) (\<lambda>_.
     bnd (lift (ethers_Wallet w (privateKey cfg))) (\<lambda>signerAddress.
     call (Call_getBalance signerAddress) (provider_getBalance w signerAddress))))"

text \<open>
  Step 5, get the required fee (lines 236 to 252), with the comparison of the balance
  to it: the result is \<^verbatim>\<open>fee\<close>. (Step 4 is \<open>fetchFeedData\<close>.)
\<close>

definition getRequiredFee :: "world \<Rightarrow> json option \<Rightarrow> int \<Rightarrow> feedData \<Rightarrow> int io" where
  "getRequiredFee w switchboardAddress balance feedData' =
     bnd (construct (ethers_Contract w switchboardAddress)) (\<lambda>_.
     bnd (call (Call_getFee switchboardAddress [fd_encoded feedData'])
            (switchboard_getFee w switchboardAddress [fd_encoded feedData'])) (\<lambda>fee.
     if balance < fee
     then throw (new_Error w (cross_mark @ '' Insufficient balance. Need ''
                   @ ethers_formatEther w fee @ '' ETH, have ''
                   @ ethers_formatEther w balance @ '' ETH''))
     else ret fee))"

text \<open>Step 6, submit the transaction and wait for its receipt (lines 254 to 289).\<close>

definition submitTransaction ::
  "world \<Rightarrow> config \<Rightarrow> json option \<Rightarrow> feedData \<Rightarrow> int \<Rightarrow> receipt io" where
  "submitTransaction w cfg priceConsumerAddress feedData' fee =
     bnd (construct (ethers_Contract w priceConsumerAddress)) (\<lambda>_.
     let feedIdForUpdate = normalizeFeedHash (feedHash cfg) in
     bnd (call (Call_updatePrices priceConsumerAddress [fd_encoded feedData'] [feedIdForUpdate] fee)
            (consumer_updatePrices w priceConsumerAddress [fd_encoded feedData']
               [feedIdForUpdate] fee)) (\<lambda>tx.
     call (Call_wait tx) (tx_wait w tx)))"

text \<open>
  Step 7, verify the price update (lines 291 to 317): five reads, then the narration,
  which formats the timestamp read back as an ISO date.
\<close>

definition verifyPriceUpdate :: "world \<Rightarrow> config \<Rightarrow> json option \<Rightarrow> unit io" where
  "verifyPriceUpdate w cfg priceConsumerAddress =
     (let feedId = normalizeFeedHash (feedHash cfg) in
      bnd (call (Call_getPrice priceConsumerAddress feedId)
             (consumer_getPrice w priceConsumerAddress feedId)) (\<lambda>(v, timestamp', slotNumber).
      bnd (call (Call_isPriceFresh priceConsumerAddress feedId)
             (consumer_isPriceFresh w priceConsumerAddress feedId)) (\<lambda>isFresh.
      bnd (call (Call_getPriceAge priceConsumerAddress feedId)
             (consumer_getPriceAge w priceConsumerAddress feedId)) (\<lambda>age.
      bnd (call (Call_maxPriceAge priceConsumerAddress)
             (consumer_maxPriceAge w priceConsumerAddress)) (\<lambda>maxPriceAge'.
      bnd (call (Call_maxDeviationBps priceConsumerAddress)
             (consumer_maxDeviationBps w priceConsumerAddress)) (\<lambda>maxDeviationBps'.
      Date_toISOString w (Some (timestamp' * 1000))))))))"

definition updatePrices :: "world \<Rightarrow> config \<Rightarrow> unit io" where
  "updatePrices w cfg =
     bnd (validateConfiguration w cfg) (\<lambda>networkConfig.
     bnd (loadContractAddresses w cfg networkConfig) (\<lambda>(priceConsumerAddress, switchboardAddress).
     bnd (setupProviderAndSigner w cfg networkConfig) (\<lambda>balance.
     bnd (fetchFeedData w (feedHash cfg)) (\<lambda>feedData'.
     bnd (getRequiredFee w switchboardAddress balance feedData') (\<lambda>fee.
     bnd (submitTransaction w cfg priceConsumerAddress feedData' fee) (\<lambda>receipt.
     verifyPriceUpdate w cfg priceConsumerAddress))))))"

text \<open>
  \<^verbatim>\<open>main\<close> (lines 324 to 338) and the exit code of the process: \<open>1\<close> from
  \<^verbatim>\<open>process.exit(1)\<close> in the handler, \<open>0\<close> when \<^verbatim>\<open>main\<close> ends without it. The handler
  itself does not throw, so the \<^verbatim>\<open>catch\<close> attached to \<^verbatim>\<open>main()\<close> has nothing to handle.
\<close>

record outcome =
  events :: "event list"
  exit_code :: nat

text \<open>The lines that the handler writes to the error stream (lines 328 to 335).\<close>

definition error_report :: "js_error \<Rightarrow> event list" where
  "error_report error =
     [Stderr (newline @ replicate 60 (CHR ''='')),
      Stderr (cross_mark @ '' ERROR: Operation Failed''),
      Stderr (replicate 60 (CHR ''='')),
      Stderr (newline @ message error @ newline)]
     @ (case stack error of
          None \<Rightarrow> []
        | Some s \<Rightarrow> if s = [] then [] else [Stderr ''Stack trace:'', Stderr s])"

definition main :: "world \<Rightarrow> config \<Rightarrow> outcome" where
  "main w cfg =
     (case updatePrices w cfg of
        (Inr _, t) \<Rightarrow> \<lparr>events = t, exit_code = 0\<rparr>
      | (Inl error, t) \<Rightarrow> \<lparr>events = t @ error_report error, exit_code = 1\<rparr>)"

text \<open>The script as a whole: the configuration is read from the environment, then \<^verbatim>\<open>main\<close>.\<close>

definition script :: "world \<Rightarrow> env \<Rightarrow> outcome" where
  "script w e = main w (load_config w e)"

subsection \<open>Observers of a run\<close>

text \<open>The two ways in which a gateway answer lacks a field that the script checks.\<close>

definition lacks_encoded :: "oracle_quote \<Rightarrow> bool" where
  "lacks_encoded r = (encoded r = None \<or> encoded r = Some [])"

definition lacks_median :: "oracle_quote \<Rightarrow> bool" where
  "lacks_median r = (first_medianResponse r = None)"

fun is_balance_or_fee_query :: "event \<Rightarrow> bool" where
  "is_balance_or_fee_query (Call_getBalance _) = True"
| "is_balance_or_fee_query (Call_getFee _ _) = True"
| "is_balance_or_fee_query _ = False"

text \<open>A recorded read or call that the world answers by throwing.\<close>

fun call_failed :: "world \<Rightarrow> event \<Rightarrow> bool" where
  "call_failed w (Stderr s) = False"
| "call_failed w Fs_existsSync = False"
| "call_failed w Fs_readFileSync = isl (fs_readFileSync w)"
| "call_failed w (Call_getBalance a) = isl (provider_getBalance w a)"
| "call_failed w (Call_fetchOracleQuote hs c) = isl (crossbar_fetchOracleQuote w hs c)"
| "call_failed w (Call_getFee a us) = isl (switchboard_getFee w a us)"
| "call_failed w (Call_updatePrices a us fs v) = isl (consumer_updatePrices w a us fs v)"
| "call_failed w (Call_wait h) = isl (tx_wait w h)"
| "call_failed w (Call_getPrice a f) = isl (consumer_getPrice w a f)"
| "call_failed w (Call_isPriceFresh a f) = isl (consumer_isPriceFresh w a f)"
| "call_failed w (Call_getPriceAge a f) = isl (consumer_getPriceAge w a f)"
| "call_failed w (Call_maxPriceAge a) = isl (consumer_maxPriceAge w a)"
| "call_failed w (Call_maxDeviationBps a) = isl (consumer_maxDeviationBps w a)"

text \<open>A step throws whenever one of the calls it made has failed.\<close>

definition fails_with_its_calls :: "world \<Rightarrow> 'a io \<Rightarrow> bool" where
  "fails_with_its_calls w m = (list_ex (call_failed w) (snd m) \<longrightarrow> isl (fst m))"


subsection \<open>Sample worlds and configurations\<close>

text \<open>
  A world in which every step succeeds, and variants of it: a signer with too little
  balance, no deployments file, and gateway answers with a field missing.
\<close>

definition sample_quote :: oracle_quote where
  "sample_quote =
     \<lparr>encoded = Some ''0xabcdef'',
      medianResponses = Some [Some \<lparr>mr_value = ''97000000000000000000000''\<rparr>],
      timestamp = Some 1700000000,
      slot = 42,
      oracleResponses = Some [OracleResponse, OracleResponse, OracleResponse]\<rparr>"

definition sample_deployments :: json where
  "sample_deployments =
     JObj [(''monadTestnet'',
            JObj [(''SwitchBoardTest'', JObj [(''address'', JStr ''0x5FbDB2315678afecb367f032d93F642f64180aa3'')])])]"

definition sample_world :: world where
  "sample_world =
     \<lparr>rt_parseInt = (\<lambda>s. if s = ''300'' then Some 300 else if s = ''1000'' then Some 1000 else None),
      rt_stack = (\<lambda>m. ''Error: '' @ m),
      rt_BigInt = (\<lambda>s. Inr 97000000000000000000000),
      rt_String = (\<lambda>v. Inr ''0x5FbDB2315678afecb367f032d93F642f64180aa3''),
      rt_JSON_parse = (\<lambda>s. Inr sample_deployments),
      fs_existsSync = True,
      fs_readFileSync = Inr ''{}'',
      ethers_Network = (\<lambda>n c. None),
      ethers_JsonRpcProvider = (\<lambda>u. None),
      ethers_Wallet = (\<lambda>k. Inr ''0xf39Fd6e51aad88F6F4ce6aB8827279cffFb92266''),
      ethers_Contract = (\<lambda>a. None),
      ethers_formatEther = (\<lambda>v. formatValue v 18),
      provider_getBalance = (\<lambda>a. Inr 2000000000000000000),
      crossbar_fetchOracleQuote = (\<lambda>hs c. Inr sample_quote),
      switchboard_getFee = (\<lambda>a us. Inr 1000),
      consumer_updatePrices = (\<lambda>a us fs v. Inr ''0x01''),
      tx_wait = (\<lambda>h. Inr \<lparr>blockNumber = 7, gasUsed = 21000, status = Some 1, hash = h\<rparr>),
      consumer_getPrice = (\<lambda>a f. Inr (97000000000000000000000, 1700000000, 42)),
      consumer_isPriceFresh = (\<lambda>a f. Inr True),
      consumer_getPriceAge = (\<lambda>a f. Inr 3),
      consumer_maxPriceAge = (\<lambda>a. Inr 300),
      consumer_maxDeviationBps = (\<lambda>a. Inr 1000)\<rparr>"

definition poor_world :: world where
  "poor_world = sample_world\<lparr>provider_getBalance := (\<lambda>a. Inr 999)\<rparr>"

definition no_file_world :: world where
  "no_file_world = sample_world\<lparr>fs_existsSync := False\<rparr>"

definition no_encoded_world :: world where
  "no_encoded_world =
     sample_world\<lparr>crossbar_fetchOracleQuote := (\<lambda>hs c. Inr (sample_quote\<lparr>encoded := None\<rparr>))\<rparr>"

definition no_median_world :: world where
  "no_median_world =
     sample_world\<lparr>crossbar_fetchOracleQuote :=
                    (\<lambda>hs c. Inr (sample_quote\<lparr>medianResponses := Some []\<rparr>))\<rparr>"

definition rpc_down_world :: world where
  "rpc_down_world =
     sample_world\<lparr>provider_getBalance :=
                    (\<lambda>a. Inl \<lparr>message = ''could not detect network'', stack = None\<rparr>)\<rparr>"

definition sample_env :: env where
  "sample_env =
     \<lparr>RPC_URL = None,
      PRIVATE_KEY = Some ''0xac0974bec39a17e36ba4a6b4d238ff944bacb478cbed5efcae784d7bf4f2ff80'',
      NETWORK = Some ''monad-mainnet'',
      FEED_HASH = None,
      MAX_PRICE_AGE = None,
      MAX_DEVIATION_BPS = None\<rparr>"

definition sample_config :: config where
  "sample_config = load_config sample_world sample_env"

definition keyless_config :: config where
  "keyless_config = load_config sample_world (sample_env\<lparr>PRIVATE_KEY := None\<rparr>)"

section \<open>Properties of the utility functions\<close>

subsection \<open>Identifier normalization\<close>

lemma startsWith_0x_iff: "startsWith ''0x'' s = (\<exists>r. s = CHR ''0'' # CHR ''x'' # r)"
proof (cases s)
  case Nil
  then show ?thesis by (simp add: startsWith_def)
next
  case (Cons a s')
  then show ?thesis by (cases s') (auto simp: startsWith_def)
qed

lemma normalizeFeedHash_prefixed: "startsWith ''0x'' (normalizeFeedHash s)"
  by (simp add: normalizeFeedHash_def startsWith_0x_iff)

lemma normalizeFeedHash_cases:
  "normalizeFeedHash s = s \<or> normalizeFeedHash s = ''0x'' @ s"
  by (simp add: normalizeFeedHash_def)

lemma hex64_not_prefixed:
  assumes "length s = 64" and "list_all is_hex s"
  shows "\<not> startsWith ''0x'' s"
proof
  assume "startsWith ''0x'' s"
  then obtain r where "s = CHR ''0'' # CHR ''x'' # r"
    by (auto simp: startsWith_0x_iff)
  with assms(2) have "is_hex (CHR ''x'')" by simp
  then show False by (simp add: is_hex_def)
qed

text \<open>
  C1. Whatever the network selector is, also \<^verbatim>\<open>'monad-mainnet'\<close>, the key under which
  the workflow looks up the deployments file is \<^verbatim>\<open>'monadTestnet'\<close>: the step that loads the
  contract addresses does the same for every selector.
\<close>

theorem networkKey_fixed:
  "networkKey selector = ''monadTestnet''
   \<and> networkKey ''monad-mainnet'' = ''monadTestnet''
   \<and> loadContractAddresses w (cfg\<lparr>network := selector\<rparr>) nc = loadContractAddresses w cfg nc"
  by (simp add: networkKey_def loadContractAddresses_def)

theorem networkKey_fixed_witness:
  "networkKey ''monad-mainnet'' = networkKey ''monad-testnet''
   \<and> loadContractAddresses sample_world (sample_config\<lparr>network := ''monad-testnet''\<rparr>)
        (Entry (snd (hd NETWORKS)))
      = loadContractAddresses sample_world sample_config (Entry (snd (hd NETWORKS)))"
  using networkKey_fixed [of "''monad-mainnet''" sample_world sample_config
      "Entry (snd (hd NETWORKS))"]
    networkKey_fixed [of "''monad-testnet''" sample_world sample_config
      "Entry (snd (hd NETWORKS))"]
  by simp

text \<open>
  C2, as the specification states it, fails: an identifier written with upper-case
  hexadecimal digits is passed on with them.
\<close>

theorem normalizeFeedHash_keeps_upper_case:
  "\<not> canonical_prefixed_lowercase
       (normalizeFeedHash ''0x4CD1CAD962425681AF07B9254B7D804DE3CA3446FBFD1371BB258D2C75059812'')"
  by (simp add: canonical_prefixed_lowercase_def lowercase_hex_def is_upper_hex_def
      normalizeFeedHash_def startsWith_def)

text \<open>
  C2, amended. The normalized identifier starts with \<^verbatim>\<open>0x\<close>, and it is the input itself
  or the input after the prefix: no character is changed, so it is in lower case exactly
  when the input is.
\<close>

theorem normalizeFeedHash_prefix_only:
  "startsWith ''0x'' (normalizeFeedHash s)
   \<and> (normalizeFeedHash s = s \<or> normalizeFeedHash s = ''0x'' @ s)
   \<and> lowercase_hex (normalizeFeedHash s) = lowercase_hex s"
proof -
  have "lowercase_hex (normalizeFeedHash s) = lowercase_hex s"
    by (simp add: normalizeFeedHash_def lowercase_hex_def is_upper_hex_def)
  with normalizeFeedHash_prefixed normalizeFeedHash_cases show ?thesis by blast
qed

theorem normalizeFeedHash_prefix_only_witness:
  "normalizeFeedHash ''4CD1'' = ''0x4CD1'' \<and> \<not> lowercase_hex (normalizeFeedHash ''4CD1'')
   \<and> normalizeFeedHash ''0x4cd1'' = ''0x4cd1'' \<and> lowercase_hex (normalizeFeedHash ''0x4cd1'')"
  using normalizeFeedHash_prefix_only [of "''4CD1''"] normalizeFeedHash_prefix_only [of "''0x4cd1''"]
  by (simp add: lowercase_hex_def is_upper_hex_def startsWith_def normalizeFeedHash_def)

text \<open>
  C4. Normalization is idempotent: an identifier that carries the prefix is returned
  unchanged, an identifier of 64 hexadecimal digits gets the prefix once, and a second
  normalization changes nothing, for every string.
\<close>

theorem normalizeFeedHash_idempotent:
  "(startsWith ''0x'' s \<longrightarrow> normalizeFeedHash s = s)
   \<and> (length s = 64 \<and> list_all is_hex s \<longrightarrow> normalizeFeedHash s = ''0x'' @ s)
   \<and> normalizeFeedHash (normalizeFeedHash s) = normalizeFeedHash s"
proof -
  have "normalizeFeedHash (normalizeFeedHash s) = normalizeFeedHash s"
    using normalizeFeedHash_prefixed [of s]
    by (simp add: normalizeFeedHash_def [of "normalizeFeedHash s"])
  moreover have "length s = 64 \<and> list_all is_hex s \<longrightarrow> normalizeFeedHash s = ''0x'' @ s"
    using hex64_not_prefixed [of s] by (simp add: normalizeFeedHash_def)
  ultimately show ?thesis by (simp add: normalizeFeedHash_def)
qed

theorem normalizeFeedHash_idempotent_witness:
  "startsWith ''0x'' (''0x'' @ btc_usd_hash)
   \<and> normalizeFeedHash (''0x'' @ btc_usd_hash) = ''0x'' @ btc_usd_hash
   \<and> length btc_usd_hash = 64 \<and> list_all is_hex btc_usd_hash
   \<and> normalizeFeedHash btc_usd_hash = ''0x'' @ btc_usd_hash
   \<and> normalizeFeedHash (normalizeFeedHash btc_usd_hash) = normalizeFeedHash btc_usd_hash"
proof -
  have p: "startsWith ''0x'' (''0x'' @ btc_usd_hash)"
    by (simp add: startsWith_def)
  have h: "length btc_usd_hash = 64 \<and> list_all is_hex btc_usd_hash"
    by (simp add: btc_usd_hash_def is_hex_def)
  show ?thesis
    using p h normalizeFeedHash_idempotent [of "''0x'' @ btc_usd_hash"]
      normalizeFeedHash_idempotent [of btc_usd_hash]
    by blast
qed

subsection \<open>Fixed-point formatting\<close>

lemma digit_char_is_digit: "d < 10 \<Longrightarrow> digit_char d \<in> set ''0123456789''"
proof -
  assume "d < 10"
  then have "d \<in> {0,1,2,3,4,5,6,7,8,9}" by auto
  then show ?thesis by (auto simp: digit_char_def)
qed

lemma digit_char_nonzero: "0 < d \<Longrightarrow> d < 10 \<Longrightarrow> digit_char d \<noteq> CHR ''0''"
proof -
  assume "0 < d" "d < 10"
  then have "d \<in> {1,2,3,4,5,6,7,8,9}" by auto
  then show ?thesis by (auto simp: digit_char_def)
qed

lemma nat_toString_digits: "set (nat_toString n) \<subseteq> set ''0123456789''"
proof (induction n rule: nat_toString.induct)
  case (1 n)
  show ?case
  proof (cases "n < 10")
    case True
    then show ?thesis
      using digit_char_is_digit [of n] by (simp add: nat_toString.simps [of n])
  next
    case False
    have "n mod 10 < 10" by simp
    then have "digit_char (n mod 10) \<in> set ''0123456789''" by (rule digit_char_is_digit)
    with False 1 show ?thesis by (simp add: nat_toString.simps [of n])
  qed
qed

lemma nat_toString_no_point: "CHR ''.'' \<notin> set (nat_toString n)"
  using nat_toString_digits [of n] by auto

lemma nat_toString_nonzero_digit: "0 < n \<Longrightarrow> \<exists>c \<in> set (nat_toString n). c \<noteq> CHR ''0''"
proof (induction n rule: nat_toString.induct)
  case (1 n)
  show ?case
  proof (cases "n < 10")
    case True
    with 1 show ?thesis
      using digit_char_nonzero [of n] by (simp add: nat_toString.simps [of n])
  next
    case False
    then have "0 < n div 10" by simp
    with False 1 show ?thesis by (auto simp add: nat_toString.simps [of n])
  qed
qed

lemma replace_trailing_zeros_last:
  assumes "\<exists>c \<in> set s. c \<noteq> CHR ''0''"
  shows "replace_trailing_zeros s \<noteq> [] \<and> last (replace_trailing_zeros s) \<noteq> CHR ''0''"
proof -
  let ?d = "dropWhile (\<lambda>c. c = CHR ''0'') (rev s)"
  from assms have ne: "?d \<noteq> []" by (auto simp: dropWhile_eq_Nil_conv)
  then have "hd ?d \<noteq> CHR ''0''" using hd_dropWhile [of "\<lambda>c. c = CHR ''0''" "rev s"] by simp
  with ne show ?thesis by (simp add: replace_trailing_zeros_def last_rev)
qed

lemma formatValue_nonneg:
  assumes "0 \<le> v"
  shows "formatValue v d =
     (if 10 ^ d dvd v then nat_toString (nat (v div 10 ^ d))
      else nat_toString (nat (v div 10 ^ d)) @ ''.'' @
           replace_trailing_zeros (padStart d (CHR ''0'') (nat_toString (nat (v mod 10 ^ d)))))"
proof -
  have p: "(0::int) < 10 ^ d" by simp
  from assms have m: "v smod 10 ^ d = v mod 10 ^ d"
    by (simp add: smod_mod_positive)
  from assms have q: "v sdiv 10 ^ d = v div 10 ^ d"
    by (simp add: signed_divide_int_def sgn_if)
  have w: "\<not> v div 10 ^ d < 0" using assms p by (simp add: pos_imp_zdiv_nonneg_iff not_less)
  have f: "\<not> v mod 10 ^ d < 0" using p by (simp add: not_less)
  show ?thesis
    by (simp add: formatValue_def Let_def m q w f bigint_toString_def dvd_eq_mod_eq_0)
qed


lemma fraction_part_after_point:
  "CHR ''.'' \<notin> set w \<Longrightarrow> fraction_part (w @ ''.'' @ t) = t"
proof -
  assume "CHR ''.'' \<notin> set w"
  then have "dropWhile (\<lambda>c. c \<noteq> CHR ''.'') (w @ CHR ''.'' # t) = CHR ''.'' # t"
    by (induction w) auto
  then show ?thesis by (simp add: fraction_part_def)
qed


lemma digit_value_digit_char: "d < 10 \<Longrightarrow> digit_value (digit_char d) = d"
proof -
  assume "d < 10"
  then have "d \<in> {0,1,2,3,4,5,6,7,8,9}" by auto
  then show ?thesis by (auto simp: digit_char_def digit_value_def)
qed

lemma foldl_digits_acc:
  "foldl (\<lambda>a c. 10 * a + digit_value c) acc s
     = acc * 10 ^ length s + foldl (\<lambda>a c. 10 * a + digit_value c) 0 s"
proof (induction s arbitrary: acc)
  case Nil
  show ?case by simp
next
  case (Cons c s)
  let ?f = "\<lambda>a c. 10 * a + digit_value c"
  have a: "foldl ?f (10 * acc + digit_value c) s
      = (10 * acc + digit_value c) * 10 ^ length s + foldl ?f 0 s"
    by (rule Cons.IH)
  have b: "foldl ?f (digit_value c) s = digit_value c * 10 ^ length s + foldl ?f 0 s"
    by (rule Cons.IH)
  have "foldl ?f acc (c # s) = foldl ?f (10 * acc + digit_value c) s" by simp
  also have "\<dots> = acc * 10 ^ length (c # s) + (digit_value c * 10 ^ length s + foldl ?f 0 s)"
    unfolding a by (simp add: algebra_simps)
  also have "digit_value c * 10 ^ length s + foldl ?f 0 s = foldl ?f 0 (c # s)"
    unfolding b [symmetric] by simp
  finally show ?case .
qed

lemma digits_value_append:
  "digits_value (a @ b) = digits_value a * 10 ^ length b + digits_value b"
  unfolding digits_value_def foldl_append by (rule foldl_digits_acc)

lemma digits_value_zeros: "digits_value (replicate k (CHR ''0'')) = 0"
  by (induction k) (simp_all add: digits_value_def digit_value_def)

lemma digits_value_nat_toString: "digits_value (nat_toString n) = n"
proof (induction n rule: nat_toString.induct)
  case (1 n)
  show ?case
  proof (cases "n < 10")
    case True
    then show ?thesis
      by (simp add: nat_toString.simps [of n] digits_value_def digit_value_digit_char)
  next
    case False
    have "digits_value [digit_char (n mod 10)] = n mod 10"
      by (simp add: digits_value_def digit_value_digit_char)
    with False 1 show ?thesis
      by (simp add: nat_toString.simps [of n] digits_value_append)
  qed
qed

lemma nat_toString_nonempty: "nat_toString n \<noteq> []"
  by (subst nat_toString.simps) simp

lemma nat_toString_all_digits: "list_all is_digit (nat_toString n)"
  unfolding list_all_iff is_digit_def using nat_toString_digits [of n] by blast

lemma length_nat_toString: "n < 10 ^ d \<Longrightarrow> 0 < d \<Longrightarrow> length (nat_toString n) \<le> d"
proof (induction n arbitrary: d rule: nat_toString.induct)
  case (1 n)
  show ?case
  proof (cases "n < 10")
    case True
    with 1 show ?thesis by (simp add: nat_toString.simps [of n])
  next
    case False
    from "1.prems" obtain d' where d: "d = Suc d'" by (cases d) auto
    with False "1.prems" have "0 < d'" by (cases d') auto
    moreover from d "1.prems" have "n div 10 < 10 ^ d'"
      by (simp add: less_mult_imp_div_less mult.commute)
    ultimately have "length (nat_toString (n div 10)) \<le> d'"
      using "1.IH" False by simp
    with d False show ?thesis by (simp add: nat_toString.simps [of n])
  qed
qed

lemma replace_trailing_zeros_decomp:
  "\<exists>k. s = replace_trailing_zeros s @ replicate k (CHR ''0'')"
proof -
  let ?P = "\<lambda>c. c = CHR ''0''"
  have "rev s = takeWhile ?P (rev s) @ dropWhile ?P (rev s)" by simp
  then have "s = rev (dropWhile ?P (rev s)) @ rev (takeWhile ?P (rev s))"
    by (metis rev_append rev_rev_ident)
  moreover have "takeWhile ?P (rev s) = replicate (length (takeWhile ?P (rev s))) (CHR ''0'')"
    by (rule replicate_length_same [symmetric]) (auto dest: set_takeWhileD)
  ultimately show ?thesis
    unfolding replace_trailing_zeros_def by (metis rev_replicate)
qed

lemma digits_value_replace_trailing_zeros:
  "digits_value s = digits_value (replace_trailing_zeros s)
      * 10 ^ (length s - length (replace_trailing_zeros s))"
proof -
  obtain k where k: "s = replace_trailing_zeros s @ replicate k (CHR ''0'')"
    using replace_trailing_zeros_decomp by blast
  then have "length s = length (replace_trailing_zeros s) + k"
    by (metis length_append length_replicate)
  then have "length s - length (replace_trailing_zeros s) = k" by simp
  moreover have "digits_value (replace_trailing_zeros s @ replicate k (CHR ''0''))
      = digits_value (replace_trailing_zeros s) * 10 ^ k"
    by (simp add: digits_value_append digits_value_zeros)
  ultimately show ?thesis using k by simp
qed

lemma replace_trailing_zeros_subset: "set (replace_trailing_zeros s) \<subseteq> set s"
  by (auto simp: replace_trailing_zeros_def dest: set_dropWhileD)

lemma length_replace_trailing_zeros: "length (replace_trailing_zeros s) \<le> length s"
  using length_dropWhile_le [of "\<lambda>c. c = CHR ''0''" "rev s"]
  by (simp add: replace_trailing_zeros_def)

lemma takeWhile_before_point:
  "CHR ''.'' \<notin> set w \<Longrightarrow> takeWhile (\<lambda>c. c \<noteq> CHR ''.'') (w @ CHR ''.'' # t) = w"
  by (induction w) auto

lemma dropWhile_before_point:
  "CHR ''.'' \<notin> set w \<Longrightarrow> dropWhile (\<lambda>c. c \<noteq> CHR ''.'') (w @ CHR ''.'' # t) = CHR ''.'' # t"
  by (induction w) auto

lemma takeWhile_no_point:
  "CHR ''.'' \<notin> set w \<Longrightarrow> takeWhile (\<lambda>c. c \<noteq> CHR ''.'') w = w"
  by (induction w) auto

lemma dropWhile_no_point:
  "CHR ''.'' \<notin> set w \<Longrightarrow> dropWhile (\<lambda>c. c \<noteq> CHR ''.'') w = []"
  by (induction w) auto

lemma digits_value_Nil: "digits_value [] = 0"
  by (simp add: digits_value_def)

lemma nat_toString_no_minus: "\<not> startsWith ''-'' (nat_toString n @ r)"
proof -
  obtain c cs where "nat_toString n = c # cs"
    using nat_toString_nonempty [of n] by (cases "nat_toString n") auto
  moreover from this have "c \<in> set ''0123456789''"
    using nat_toString_digits [of n] by auto
  ultimately show ?thesis by (auto simp: startsWith_def)
qed

lemma parseValue_whole:
  "parseValue d (nat_toString n) = Some (int n * 10 ^ d)"
proof -
  have "\<not> startsWith ''-'' (nat_toString n)"
    using nat_toString_no_minus [of n "[]"] by simp
  then show ?thesis
    by (simp add: parseValue_def Let_def takeWhile_no_point dropWhile_no_point
        nat_toString_no_point nat_toString_nonempty nat_toString_all_digits
        digits_value_nat_toString digits_value_Nil)
qed

lemma parseValue_fraction:
  assumes "t \<noteq> []" and "list_all is_digit t" and "length t \<le> d"
  shows "parseValue d (nat_toString n @ ''.'' @ t)
     = Some (int n * 10 ^ d + int (digits_value t) * 10 ^ (d - length t))"
proof -
  have "\<not> startsWith ''-'' (nat_toString n @ ''.'' @ t)"
    by (rule nat_toString_no_minus)
  with assms show ?thesis
    by (simp add: parseValue_def Let_def takeWhile_before_point dropWhile_before_point
        nat_toString_no_point nat_toString_nonempty nat_toString_all_digits
        digits_value_nat_toString)
qed

lemma formatValue_roundtrip_nonneg:
  assumes "0 \<le> v"
  shows "parseValue d (formatValue v d) = Some v"
proof (cases "10 ^ d dvd v")
  case True
  have "0 \<le> v div 10 ^ d" using assms by (simp add: pos_imp_zdiv_nonneg_iff)
  then have "int (nat (v div 10 ^ d)) * 10 ^ d = v div 10 ^ d * 10 ^ d" by simp
  also have "\<dots> = v" using True by simp
  finally show ?thesis using True assms
    by (simp add: formatValue_nonneg parseValue_whole)
next
  case False
  define q where "q = nat (v div 10 ^ d)"
  define f where "f = nat (v mod 10 ^ d)"
  define s where "s = padStart d (CHR ''0'') (nat_toString f)"
  define t where "t = replace_trailing_zeros s"
  have fv: "formatValue v d = nat_toString q @ ''.'' @ t"
    using False assms by (simp add: formatValue_nonneg q_def f_def s_def t_def)
  from False have d0: "0 < d" by (cases d) auto
  have "v mod 10 ^ d < 10 ^ d" by simp
  then have "f < 10 ^ d" unfolding f_def by (simp add: nat_less_iff)
  then have len: "length (nat_toString f) \<le> d" using d0 by (rule length_nat_toString)
  then have ls: "length s = d" by (simp add: s_def padStart_def)
  have vs: "digits_value s = f"
    by (simp add: s_def padStart_def digits_value_append digits_value_zeros
        digits_value_nat_toString)
  have "is_digit (CHR ''0'')" by (simp add: is_digit_def)
  then have ds: "list_all is_digit s"
    using nat_toString_all_digits [of f] by (auto simp: s_def padStart_def list_all_iff)
  have dt: "list_all is_digit t"
    using ds replace_trailing_zeros_subset [of s] by (auto simp: t_def list_all_iff)
  have lt: "length t \<le> d"
    using length_replace_trailing_zeros [of s] ls by (simp add: t_def)
  from False have "v mod 10 ^ d \<noteq> 0" by (simp add: dvd_eq_mod_eq_0)
  moreover have "0 \<le> v mod 10 ^ d" by simp
  ultimately have "0 < v mod 10 ^ d" by linarith
  then have "0 < f" by (simp add: f_def)
  then have "\<exists>c \<in> set (nat_toString f). c \<noteq> CHR ''0''"
    by (rule nat_toString_nonzero_digit)
  then have "\<exists>c \<in> set s. c \<noteq> CHR ''0''"
    by (auto simp: s_def padStart_def)
  then have tn: "t \<noteq> []"
    unfolding t_def using replace_trailing_zeros_last by blast
  have "digits_value s = digits_value t * 10 ^ (length s - length t)"
    unfolding t_def by (rule digits_value_replace_trailing_zeros)
  with vs ls have "digits_value t * 10 ^ (d - length t) = f" by simp
  then have "int (digits_value t * 10 ^ (d - length t)) = int f" by (rule arg_cong)
  then have "int (digits_value t) * 10 ^ (d - length t) = int f" by simp
  also have "\<dots> = v mod 10 ^ d" by (simp add: f_def)
  finally have fr: "int (digits_value t) * 10 ^ (d - length t) = v mod 10 ^ d" .
  have "0 \<le> v div 10 ^ d" using assms by (simp add: pos_imp_zdiv_nonneg_iff)
  then have wh: "int q * 10 ^ d = v div 10 ^ d * 10 ^ d" by (simp add: q_def)
  have "parseValue d (nat_toString q @ ''.'' @ t)
      = Some (int q * 10 ^ d + int (digits_value t) * 10 ^ (d - length t))"
    using tn dt lt by (rule parseValue_fraction)
  also have "\<dots> = Some v" unfolding fr wh div_mult_mod_eq by (rule refl)
  finally show ?thesis unfolding fv .
qed

lemma nat_toString_zero: "nat_toString 0 = ''0''"
  by (simp add: nat_toString.simps [of 0] digit_char_def)

lemma nat_toString_hd: "0 < n \<Longrightarrow> hd (nat_toString n) \<noteq> CHR ''0''"
proof (induction n rule: nat_toString.induct)
  case (1 n)
  show ?case
  proof (cases "n < 10")
    case True
    with 1 show ?thesis
      using digit_char_nonzero [of n] by (simp add: nat_toString.simps [of n])
  next
    case False
    then have "0 < n div 10" by simp
    with False 1 have "hd (nat_toString (n div 10)) \<noteq> CHR ''0''" by simp
    with False show ?thesis
      by (simp add: nat_toString.simps [of n] nat_toString_nonempty)
  qed
qed

lemma nat_toString_leading: "nat_toString n = ''0'' \<or> hd (nat_toString n) \<noteq> CHR ''0''"
  using nat_toString_zero nat_toString_hd [of n] by (cases "n = 0") auto

lemma whole_part_no_point: "CHR ''.'' \<notin> set w \<Longrightarrow> whole_part w = w"
  by (simp add: whole_part_def takeWhile_no_point)

lemma fraction_part_no_point: "CHR ''.'' \<notin> set w \<Longrightarrow> fraction_part w = []"
  by (simp add: fraction_part_def dropWhile_no_point)

lemma whole_part_before_point:
  "CHR ''.'' \<notin> set w \<Longrightarrow> whole_part (w @ ''.'' @ t) = w"
  by (simp add: whole_part_def takeWhile_before_point)

lemma formatValue_fraction_digits:
  assumes "0 \<le> v" and "\<not> 10 ^ d dvd v"
  defines "t \<equiv> replace_trailing_zeros (padStart d (CHR ''0'') (nat_toString (nat (v mod 10 ^ d))))"
  shows "t \<noteq> []" and "list_all is_digit t" and "last t \<noteq> CHR ''0''" and "length t \<le> d"
    and "int (digits_value t) * 10 ^ (d - length t) = v mod 10 ^ d"
proof -
  define f where "f = nat (v mod 10 ^ d)"
  define s where "s = padStart d (CHR ''0'') (nat_toString f)"
  have ts: "t = replace_trailing_zeros s" by (simp add: t_def s_def f_def)
  from assms(2) have d0: "0 < d" by (cases d) auto
  have "v mod 10 ^ d < 10 ^ d" by simp
  then have "f < 10 ^ d" unfolding f_def by (simp add: nat_less_iff)
  then have "length (nat_toString f) \<le> d" using d0 by (rule length_nat_toString)
  then have ls: "length s = d" by (simp add: s_def padStart_def)
  have vs: "digits_value s = f"
    by (simp add: s_def padStart_def digits_value_append digits_value_zeros
        digits_value_nat_toString)
  have "is_digit (CHR ''0'')" by (simp add: is_digit_def)
  then have ds: "list_all is_digit s"
    using nat_toString_all_digits [of f] by (auto simp: s_def padStart_def list_all_iff)
  show "list_all is_digit t"
    using ds replace_trailing_zeros_subset [of s] by (auto simp: ts list_all_iff)
  show "length t \<le> d"
    using length_replace_trailing_zeros [of s] ls by (simp add: ts)
  from assms(2) have "v mod 10 ^ d \<noteq> 0" by (simp add: dvd_eq_mod_eq_0)
  moreover have "0 \<le> v mod 10 ^ d" by simp
  ultimately have "0 < v mod 10 ^ d" by linarith
  then have "0 < f" by (simp add: f_def)
  then have "\<exists>c \<in> set (nat_toString f). c \<noteq> CHR ''0''"
    by (rule nat_toString_nonzero_digit)
  then have "\<exists>c \<in> set s. c \<noteq> CHR ''0''"
    by (auto simp: s_def padStart_def)
  then have "replace_trailing_zeros s \<noteq> [] \<and> last (replace_trailing_zeros s) \<noteq> CHR ''0''"
    by (rule replace_trailing_zeros_last)
  then show "t \<noteq> []" and "last t \<noteq> CHR ''0''" by (simp_all add: ts)
  have "digits_value s = digits_value t * 10 ^ (length s - length t)"
    unfolding ts by (rule digits_value_replace_trailing_zeros)
  with vs ls have "digits_value t * 10 ^ (d - length t) = f" by simp
  then have "int (digits_value t * 10 ^ (d - length t)) = int f" by (rule arg_cong)
  then have "int (digits_value t) * 10 ^ (d - length t) = int f" by simp
  also have "\<dots> = v mod 10 ^ d" by (simp add: f_def)
  finally show "int (digits_value t) * 10 ^ (d - length t) = v mod 10 ^ d" .
qed

lemmas formatValue_unfold = formatValue_def bigint_toString_def nat_toString.simps padStart_def
  replace_trailing_zeros_def digit_char_def Let_def signed_divide_int_def
  signed_modulo_int_def

text \<open>
  C10. For a value that is not negative, \<open>formatValue\<close> writes a canonical decimal
  numeral: a whole part of digits without a leading zero, which is the decimal notation
  of the quotient, and a decimal point exactly when the value is not a multiple of
  \<open>10 ^ decimals\<close>; the digits after the point are then not empty, at most \<open>decimals\<close> many,
  and do not end with a zero. Whole part and fraction together denote the value. (For a
  negative value with a remainder the string is not canonical, see
  \<open>formatValue_negative_not_canonical\<close>.)
\<close>

theorem formatValue_canonical:
  assumes "0 \<le> v"
  shows "canonical_decimal (formatValue v decimals)
    \<and> (CHR ''.'' \<in> set (formatValue v decimals)) = (\<not> 10 ^ decimals dvd v)
    \<and> (\<not> 10 ^ decimals dvd v \<longrightarrow>
         fraction_part (formatValue v decimals) \<noteq> []
         \<and> last (fraction_part (formatValue v decimals)) \<noteq> CHR ''0'')
    \<and> whole_part (formatValue v decimals) = nat_toString (nat (v div 10 ^ decimals))
    \<and> length (fraction_part (formatValue v decimals)) \<le> decimals
    \<and> int (digits_value (whole_part (formatValue v decimals))) * 10 ^ decimals
        + int (digits_value (fraction_part (formatValue v decimals)))
          * 10 ^ (decimals - length (fraction_part (formatValue v decimals))) = v"
proof (cases "10 ^ decimals dvd v")
  case True
  define q where "q = nat (v div 10 ^ decimals)"
  have fv: "formatValue v decimals = nat_toString q"
    using True assms by (simp add: formatValue_nonneg q_def)
  have np: "CHR ''.'' \<notin> set (nat_toString q)" by (rule nat_toString_no_point)
  have w: "whole_part (nat_toString q) = nat_toString q"
    and f: "fraction_part (nat_toString q) = []"
    using np by (simp_all add: whole_part_no_point fraction_part_no_point)
  have c: "canonical_decimal (nat_toString q)"
    using np nat_toString_leading [of q]
    by (simp add: canonical_decimal_def Let_def w f nat_toString_nonempty
        nat_toString_all_digits)
  have "0 \<le> v div 10 ^ decimals" using assms by (simp add: pos_imp_zdiv_nonneg_iff)
  then have "int q * 10 ^ decimals = v div 10 ^ decimals * 10 ^ decimals" by (simp add: q_def)
  also have "\<dots> = v" using True by simp
  finally have val: "int q * 10 ^ decimals = v" .
  from True c np val show ?thesis
    by (simp add: fv w f digits_value_nat_toString digits_value_Nil q_def [symmetric])
next
  case False
  define q where "q = nat (v div 10 ^ decimals)"
  define t where "t = replace_trailing_zeros
    (padStart decimals (CHR ''0'') (nat_toString (nat (v mod 10 ^ decimals))))"
  note fd = formatValue_fraction_digits [OF assms False, folded t_def]
  have fv: "formatValue v decimals = nat_toString q @ ''.'' @ t"
    using False assms by (simp add: formatValue_nonneg q_def t_def)
  have np: "CHR ''.'' \<notin> set (nat_toString q)" by (rule nat_toString_no_point)
  have w: "whole_part (nat_toString q @ ''.'' @ t) = nat_toString q"
    using np by (rule whole_part_before_point)
  have f: "fraction_part (nat_toString q @ ''.'' @ t) = t"
    using np by (rule fraction_part_after_point)
  have p: "CHR ''.'' \<in> set (nat_toString q @ ''.'' @ t)" by simp
  have c: "canonical_decimal (nat_toString q @ ''.'' @ t)"
    unfolding canonical_decimal_def Let_def w f
    using p fd(1,2,3) nat_toString_leading [of q]
    by (simp add: nat_toString_nonempty nat_toString_all_digits)
  have "0 \<le> v div 10 ^ decimals" using assms by (simp add: pos_imp_zdiv_nonneg_iff)
  then have wh: "int q * 10 ^ decimals = v div 10 ^ decimals * 10 ^ decimals"
    by (simp add: q_def)
  have val: "int q * 10 ^ decimals + int (digits_value t) * 10 ^ (decimals - length t) = v"
    unfolding fd(5) wh div_mult_mod_eq by (rule refl)
  have "canonical_decimal (formatValue v decimals)" using c by (simp add: fv)
  moreover have "CHR ''.'' \<in> set (formatValue v decimals)" unfolding fv by (rule p)
  moreover have "fraction_part (formatValue v decimals) = t" unfolding fv by (rule f)
  moreover have "whole_part (formatValue v decimals) = nat_toString q" unfolding fv by (rule w)
  ultimately show ?thesis
    using False fd(1,3,4) val
    by (simp add: digits_value_nat_toString q_def [symmetric])
qed

lemma formatValue_negative_not_canonical:
  "\<not> canonical_decimal (formatValue (- 1500000000000000000) 18)"
proof -
  have f: "formatValue (- 1500000000000000000) 18 = ''-1.-5''"
    by (simp add: formatValue_unfold)
  show ?thesis unfolding f
    by (simp add: canonical_decimal_def whole_part_def fraction_part_def is_digit_def)
qed

theorem formatValue_canonical_witness:
  "(0::int) \<le> 1230 \<and> \<not> 10 ^ 3 dvd (1230::int) \<and> formatValue 1230 3 = ''1.23''
   \<and> canonical_decimal (formatValue 1230 3)
   \<and> CHR ''.'' \<in> set (formatValue 1230 3)
   \<and> whole_part (formatValue 1230 3) = ''1''
   \<and> fraction_part (formatValue 1230 3) = ''23''
   \<and> last (fraction_part (formatValue 1230 3)) \<noteq> CHR ''0''
   \<and> (0::int) \<le> 2000 \<and> 10 ^ 3 dvd (2000::int) \<and> formatValue 2000 3 = ''2''
   \<and> canonical_decimal (formatValue 2000 3)
   \<and> CHR ''.'' \<notin> set (formatValue 2000 3)"
proof -
  have a: "(0::int) \<le> 1230" and b: "(0::int) \<le> 2000" by simp_all
  have c: "\<not> 10 ^ 3 dvd (1230::int)" and d: "10 ^ 3 dvd (2000::int)" by simp_all
  have e: "formatValue 1230 3 = ''1.23''" and g: "formatValue 2000 3 = ''2''"
    by (simp_all add: formatValue_unfold)
  have h: "whole_part ''1.23'' = ''1''" "fraction_part ''1.23'' = ''23''"
    by (simp_all add: whole_part_def fraction_part_def)
  from formatValue_canonical [OF a, of 3] formatValue_canonical [OF b, of 3] a b c d e g h
  show ?thesis by simp
qed

text \<open>
  C3. At the negative value \<open>- 1500000000000000000\<close> (that is \<open>- 1.5\<close> at 18 decimals)
  the remainder is negative, its minus sign lands after the decimal point, and the string
  written is not a decimal numeral: reading it back does not give the value.
\<close>

theorem formatValue_negative_fraction:
  "formatValue (- 1500000000000000000) 18 = ''-1.-5''
   \<and> parseValue 18 (formatValue (- 1500000000000000000) 18) = None"
proof -
  have f: "formatValue (- 1500000000000000000) 18 = ''-1.-5''"
    by (simp add: formatValue_def bigint_toString_def nat_toString.simps padStart_def
        replace_trailing_zeros_def digit_char_def Let_def signed_divide_int_def
        signed_modulo_int_def)
  have p: "parseValue 18 ''-1.-5'' = None"
    by (simp add: parseValue_def startsWith_def is_digit_def)
  show ?thesis unfolding f p by (rule conjI) (rule refl)+
qed

theorem formatValue_negative_fraction_witness:
  "parseValue 18 (formatValue (- 1500000000000000000) 18) \<noteq> Some (- 1500000000000000000)"
proof -
  have "parseValue 18 (formatValue (- 1500000000000000000) 18) = None"
    using formatValue_negative_fraction by (rule conjunct2)
  then show ?thesis by (simp only: option.distinct not_False_eq_True)
qed

section \<open>Properties of the update workflow\<close>

lemmas io_defs = ret_def throw_def emit_def lift_def construct_def call_def bnd_def try_catch_def

lemmas step_defs = validateConfiguration_def loadContractAddresses_def
  setupProviderAndSigner_def getRequiredFee_def submitTransaction_def verifyPriceUpdate_def

subsection \<open>Sequencing\<close>

lemma bnd_Inl: "fst m = Inl e \<Longrightarrow> bnd m k = (Inl e, snd m)"
  by (cases m) (simp add: bnd_def)

lemma bnd_Inr: "fst m = Inr x \<Longrightarrow> bnd m k = (fst (k x), snd m @ snd (k x))"
  by (cases m) (simp add: bnd_def split: prod.splits)

lemma events_bnd:
  assumes "list_all P (snd m)" and "\<And>x. list_all P (snd (k x))"
  shows "list_all P (snd (bnd m k))"
proof (cases "fst m")
  case (Inl e)
  with assms(1) show ?thesis by (simp add: bnd_Inl)
next
  case (Inr x)
  with assms(1) assms(2) [of x] show ?thesis by (simp add: bnd_Inr)
qed

lemma fails_with_its_calls_bnd:
  assumes "fails_with_its_calls w m" and "\<And>x. fails_with_its_calls w (k x)"
  shows "fails_with_its_calls w (bnd m k)"
proof (cases "fst m")
  case (Inl e)
  then show ?thesis by (simp add: bnd_Inl fails_with_its_calls_def)
next
  case (Inr x)
  with assms(1) assms(2) [of x] show ?thesis
    by (auto simp: bnd_Inr fails_with_its_calls_def)
qed

subsection \<open>The steps, one by one\<close>

lemma validateConfiguration_events: "snd (validateConfiguration w cfg) = []"
  by (simp add: validateConfiguration_def io_defs split: option.splits)

lemma validateConfiguration_Inl:
  "rpcUrl cfg = [] \<or> privateKey cfg = [] \<or> NETWORKS_get (network cfg) = None \<Longrightarrow>
   isl (fst (validateConfiguration w cfg))"
  by (auto simp: validateConfiguration_def io_defs)

lemma loadDeployments_missing:
  "\<not> fs_existsSync w \<Longrightarrow>
   loadDeployments w =
     (Inl (new_Error w ''deployments.json not found. Please deploy the contract first.''),
      [Fs_existsSync])"
  by (simp add: loadDeployments_def io_defs)

lemma loadDeployments_events:
  "list_all (\<lambda>ev. \<not> is_network_call ev) (snd (loadDeployments w))"
  by (simp add: loadDeployments_def io_defs split: sum.splits)

lemma loadContractAddresses_events:
  "list_all (\<lambda>ev. \<not> is_network_call ev) (snd (loadContractAddresses w cfg nc))"
proof -
  obtain r t where L: "loadDeployments w = (r, t)" by (cases "loadDeployments w")
  with loadDeployments_events [of w] have "list_all (\<lambda>ev. \<not> is_network_call ev) t" by simp
  then show ?thesis
    by (cases r)
       (simp_all add: loadContractAddresses_def L io_defs Let_def split: option.splits sum.splits)
qed

lemma loadContractAddresses_missing:
  "\<not> fs_existsSync w \<Longrightarrow>
   fst (loadContractAddresses w cfg nc)
     = Inl (new_Error w ''deployments.json not found. Please deploy the contract first.'')"
  by (simp add: loadContractAddresses_def loadDeployments_missing io_defs)

lemma setupProviderAndSigner_shape:
  "(isl (fst (setupProviderAndSigner w cfg nc)) \<and> snd (setupProviderAndSigner w cfg nc) = [])
   \<or> (\<exists>addr. ethers_Wallet w (privateKey cfg) = Inr addr
         \<and> fst (setupProviderAndSigner w cfg nc) = provider_getBalance w addr
         \<and> snd (setupProviderAndSigner w cfg nc) = [Call_getBalance addr])"
  by (simp add: setupProviderAndSigner_def io_defs split: option.splits sum.splits)

lemma fetchFeedData_events:
  "list_all (\<lambda>ev. (\<exists>s. ev = Stderr s) \<or> is_gateway_call ev) (snd (fetchFeedData w h))"
  by (auto simp: fetchFeedData_def first_medianResponse_def io_defs Let_def Date_toISOString_def
      split: option.splits list.splits sum.splits if_splits)

lemma fetchFeedData_one_call:
  "length (filter is_gateway_call (snd (fetchFeedData w h))) = 1"
  by (auto simp: fetchFeedData_def first_medianResponse_def io_defs Let_def Date_toISOString_def
      split: option.splits list.splits sum.splits if_splits)

lemma getRequiredFee_shape:
  "(isl (fst (getRequiredFee w sba bal fd)) \<and> snd (getRequiredFee w sba bal fd) = [])
   \<or> (snd (getRequiredFee w sba bal fd) = [Call_getFee sba [fd_encoded fd]]
       \<and> fst (getRequiredFee w sba bal fd)
           = (case switchboard_getFee w sba [fd_encoded fd] of
                Inl e \<Rightarrow> Inl e
              | Inr fee \<Rightarrow>
                  if bal < fee
                  then Inl (new_Error w (cross_mark @ '' Insufficient balance. Need ''
                         @ ethers_formatEther w fee @ '' ETH, have ''
                         @ ethers_formatEther w bal @ '' ETH''))
                  else Inr fee))"
  by (simp add: getRequiredFee_def io_defs split: option.splits sum.splits)

lemma submitTransaction_events:
  "list_all (\<lambda>ev. \<not> is_balance_or_fee_query ev) (snd (submitTransaction w cfg pca fd fee))"
  by (simp add: submitTransaction_def io_defs Let_def split: option.splits sum.splits)

lemma verifyPriceUpdate_events:
  "list_all (\<lambda>ev. \<not> is_balance_or_fee_query ev) (snd (verifyPriceUpdate w cfg pca))"
  by (simp add: verifyPriceUpdate_def io_defs Let_def Date_toISOString_def
      split: option.splits sum.splits prod.splits)

lemma no_query_in_non_network:
  "list_all (\<lambda>ev. \<not> is_network_call ev) t \<Longrightarrow> ev \<in> set t \<Longrightarrow> \<not> is_balance_or_fee_query ev"
  by (cases ev) (auto simp: list_all_iff)

lemma no_query_in_fetch:
  "ev \<in> set (snd (fetchFeedData w h)) \<Longrightarrow> \<not> is_balance_or_fee_query ev"
  using fetchFeedData_events [of w h] by (cases ev) (auto simp: list_all_iff)

lemma no_submission_in_non_network:
  "list_all (\<lambda>ev. \<not> is_network_call ev) t \<Longrightarrow> list_all (\<lambda>ev. \<not> is_submission ev) t"
proof -
  have "\<not> is_network_call ev \<Longrightarrow> \<not> is_submission ev" for ev by (cases ev) auto
  then show "list_all (\<lambda>ev. \<not> is_network_call ev) t \<Longrightarrow> list_all (\<lambda>ev. \<not> is_submission ev) t"
    by (auto simp: list_all_iff)
qed

lemma no_submission_in_fetch:
  "list_all (\<lambda>ev. \<not> is_submission ev) (snd (fetchFeedData w h))"
proof -
  have "(\<exists>s. ev = Stderr s) \<or> is_gateway_call ev \<Longrightarrow> \<not> is_submission ev" for ev
    by (cases ev) auto
  with fetchFeedData_events [of w h] show ?thesis by (auto simp: list_all_iff)
qed

subsection \<open>Every failed call ends the run\<close>

lemma loadDeployments_fails_with_its_calls: "fails_with_its_calls w (loadDeployments w)"
  by (simp add: fails_with_its_calls_def loadDeployments_def io_defs split: sum.splits)

lemma loadContractAddresses_fails_with_its_calls:
  "fails_with_its_calls w (loadContractAddresses w cfg nc)"
proof -
  obtain r t where L: "loadDeployments w = (r, t)" by (cases "loadDeployments w")
  with loadDeployments_fails_with_its_calls [of w]
  have "list_ex (call_failed w) t \<longrightarrow> isl r" by (simp add: fails_with_its_calls_def)
  then show ?thesis
    by (cases r)
       (simp_all add: fails_with_its_calls_def loadContractAddresses_def L io_defs Let_def
          split: option.splits sum.splits)
qed

lemma setupProviderAndSigner_fails_with_its_calls:
  "fails_with_its_calls w (setupProviderAndSigner w cfg nc)"
  by (simp add: fails_with_its_calls_def setupProviderAndSigner_def io_defs
      split: option.splits sum.splits)

lemma fetchFeedData_fails_with_its_calls: "fails_with_its_calls w (fetchFeedData w h)"
  by (auto simp: fails_with_its_calls_def fetchFeedData_def first_medianResponse_def io_defs Let_def Date_toISOString_def
      split: option.splits list.splits sum.splits if_splits)

lemma getRequiredFee_fails_with_its_calls:
  "fails_with_its_calls w (getRequiredFee w sba bal fd)"
  by (simp add: fails_with_its_calls_def getRequiredFee_def io_defs
      split: option.splits sum.splits)

lemma submitTransaction_fails_with_its_calls:
  "fails_with_its_calls w (submitTransaction w cfg pca fd fee)"
  by (simp add: fails_with_its_calls_def submitTransaction_def io_defs Let_def
      split: option.splits sum.splits)

lemma verifyPriceUpdate_fails_with_its_calls:
  "fails_with_its_calls w (verifyPriceUpdate w cfg pca)"
  by (auto simp: fails_with_its_calls_def verifyPriceUpdate_def io_defs Let_def
      Date_toISOString_def split: option.splits sum.splits prod.splits)

lemma validateConfiguration_fails_with_its_calls:
  "fails_with_its_calls w (validateConfiguration w cfg)"
  by (simp add: fails_with_its_calls_def validateConfiguration_events)

lemma updatePrices_fails_with_its_calls: "fails_with_its_calls w (updatePrices w cfg)"
  unfolding updatePrices_def
  by (intro fails_with_its_calls_bnd validateConfiguration_fails_with_its_calls
        loadContractAddresses_fails_with_its_calls)
     (simp add: split_def fails_with_its_calls_bnd
        setupProviderAndSigner_fails_with_its_calls
        fetchFeedData_fails_with_its_calls getRequiredFee_fails_with_its_calls
        submitTransaction_fails_with_its_calls verifyPriceUpdate_fails_with_its_calls)

subsection \<open>The run as a whole\<close>

lemma error_report_events:
  "list_all (\<lambda>ev. \<not> is_network_call ev) (error_report e)"
  "list_all (\<lambda>ev. \<not> is_submission ev) (error_report e)"
  "list_all (\<lambda>ev. \<not> is_gateway_call ev) (error_report e)"
  "list_all (\<lambda>ev. \<not> call_failed w ev) (error_report e)"
  by (simp_all add: error_report_def split: option.splits)

lemma main_of_failure:
  "fst (updatePrices w cfg) = Inl e \<Longrightarrow>
   exit_code (main w cfg) = 1
   \<and> events (main w cfg) = snd (updatePrices w cfg) @ error_report e"
  by (cases "updatePrices w cfg") (simp add: main_def)

lemma main_of_success:
  "fst (updatePrices w cfg) = Inr u \<Longrightarrow>
   exit_code (main w cfg) = 0 \<and> events (main w cfg) = snd (updatePrices w cfg)"
  by (cases "updatePrices w cfg") (simp add: main_def)

lemma main_events_all:
  assumes "list_all P (snd (updatePrices w cfg))" and "\<And>e. list_all P (error_report e)"
  shows "list_all P (events (main w cfg))"
proof (cases "fst (updatePrices w cfg)")
  case (Inl e)
  with assms(1) assms(2) [of e] show ?thesis by (simp add: main_of_failure)
next
  case (Inr u)
  with assms(1) show ?thesis by (simp add: main_of_success)
qed

lemma updatePrices_missing_file:
  assumes "\<not> fs_existsSync w"
  shows "isl (fst (updatePrices w cfg))
     \<and> list_all (\<lambda>ev. \<not> is_network_call ev) (snd (updatePrices w cfg))
     \<and> (rpcUrl cfg \<noteq> [] \<and> privateKey cfg \<noteq> [] \<and> NETWORKS_get (network cfg) \<noteq> None \<longrightarrow>
          fst (updatePrices w cfg)
            = Inl (new_Error w ''deployments.json not found. Please deploy the contract first.''))"
proof (cases "fst (validateConfiguration w cfg)")
  case (Inl e)
  then have "updatePrices w cfg = (Inl e, [])"
    by (simp add: updatePrices_def bnd_Inl validateConfiguration_events)
  moreover from Inl have "\<not> (rpcUrl cfg \<noteq> [] \<and> privateKey cfg \<noteq> [] \<and> NETWORKS_get (network cfg) \<noteq> None)"
    by (auto simp: validateConfiguration_def io_defs split: if_splits option.splits)
  ultimately show ?thesis by auto
next
  case (Inr nc)
  let ?e = "new_Error w ''deployments.json not found. Please deploy the contract first.''"
  have l: "fst (loadContractAddresses w cfg nc) = Inl ?e"
    using assms by (rule loadContractAddresses_missing)
  have "updatePrices w cfg = (Inl ?e, snd (loadContractAddresses w cfg nc))"
    by (simp add: updatePrices_def bnd_Inr [OF Inr] bnd_Inl [OF l] validateConfiguration_events)
  with loadContractAddresses_events [of w cfg nc] show ?thesis by simp
qed

lemma gateway_calls_at_most_once:
  "length (filter is_gateway_call (snd (updatePrices w cfg))) \<le> 1"
proof -
  have ng: "list_all (\<lambda>ev. \<not> is_network_call ev) t \<Longrightarrow> filter is_gateway_call t = []" for t
  proof -
    have "\<not> is_network_call ev \<Longrightarrow> \<not> is_gateway_call ev" for ev by (cases ev) auto
    then show "list_all (\<lambda>ev. \<not> is_network_call ev) t \<Longrightarrow> filter is_gateway_call t = []"
      by (auto simp: list_all_iff filter_empty_conv)
  qed
  note e1 = validateConfiguration_events [of w cfg]
  show ?thesis
  proof (cases "fst (validateConfiguration w cfg)")
    case (Inl e)
    then show ?thesis by (simp add: updatePrices_def bnd_Inl e1)
  next
    case r1: (Inr nc)
    let ?m2 = "loadContractAddresses w cfg nc"
    have g2: "filter is_gateway_call (snd ?m2) = []"
      using loadContractAddresses_events by (rule ng)
    show ?thesis
    proof (cases "fst ?m2")
      case (Inl e)
      then show ?thesis by (simp add: updatePrices_def bnd_Inr [OF r1] bnd_Inl [OF Inl] e1 g2)
    next
      case (Inr p)
      obtain pca sba where p: "p = (pca, sba)" by (cases p)
      note r2 = Inr [unfolded p]
      let ?m3 = "setupProviderAndSigner w cfg nc"
      have g3: "filter is_gateway_call (snd ?m3) = []"
        using setupProviderAndSigner_shape [of w cfg nc] by auto
      show ?thesis
      proof (cases "fst ?m3")
        case (Inl e)
        then show ?thesis
          by (simp add: updatePrices_def bnd_Inr [OF r1] bnd_Inr [OF r2] bnd_Inl [OF Inl] e1 g2 g3)
      next
        case r3: (Inr bal)
        let ?m4 = "fetchFeedData w (feedHash cfg)"
        note g4 = fetchFeedData_one_call [of w "feedHash cfg"]
        show ?thesis
        proof (cases "fst ?m4")
          case (Inl e)
          then show ?thesis
            by (simp add: updatePrices_def bnd_Inr [OF r1] bnd_Inr [OF r2] bnd_Inr [OF r3]
                bnd_Inl [OF Inl] e1 g2 g3 g4)
        next
          case r4: (Inr fd)
          let ?rest = "bnd (getRequiredFee w sba bal fd) (\<lambda>fee.
                       bnd (submitTransaction w cfg pca fd fee) (\<lambda>receipt.
                       verifyPriceUpdate w cfg pca))"
          have "list_all (\<lambda>ev. \<not> is_gateway_call ev) (snd ?rest)"
            by (intro events_bnd)
               (auto simp: getRequiredFee_def submitTransaction_def verifyPriceUpdate_def io_defs
                  Let_def Date_toISOString_def split: option.splits sum.splits prod.splits)
          then have g5: "filter is_gateway_call (snd ?rest) = []"
            by (auto simp: list_all_iff filter_empty_conv)
          have "snd (updatePrices w cfg) = snd ?m2 @ snd ?m3 @ snd ?m4 @ snd ?rest"
            by (simp add: updatePrices_def bnd_Inr [OF r1] bnd_Inr [OF r2] bnd_Inr [OF r3]
                bnd_Inr [OF r4] e1)
          then show ?thesis by (simp add: g2 g3 g4 g5)
        qed
      qed
    qed
  qed
qed

subsection \<open>Sample runs\<close>

lemmas sample_defs = sample_config_def keyless_config_def load_config_def sample_env_def
  or_default_def sample_world_def sample_deployments_def sample_quote_def poor_world_def
  no_file_world_def no_encoded_world_def no_median_world_def rpc_down_world_def
  btc_usd_hash_def

lemmas run_defs = updatePrices_def step_defs io_defs NETWORKS_get_def NETWORKS_def
  Object_prototype_functions_def loadDeployments_def networkKey_def fetchFeedData_def first_medianResponse_def
  feedHashForCrossbar_def normalizeFeedHash_def startsWith_def Date_toISOString_def Let_def

lemma replicate_numeral: "replicate (numeral k) x = x # replicate (pred_numeral k) x"
  by (simp add: numeral_eq_Suc)

lemmas formatValue_eval = formatValue_def bigint_toString_def nat_toString.simps padStart_def
  replace_trailing_zeros_def digit_char_def Let_def signed_divide_int_def
  signed_modulo_int_def replicate_numeral

lemma sample_run:
  "updatePrices sample_world sample_config =
     (Inr (),
      [Fs_existsSync, Fs_readFileSync,
       Call_getBalance ''0xf39Fd6e51aad88F6F4ce6aB8827279cffFb92266'',
       Call_fetchOracleQuote [btc_usd_hash] ''mainnet'',
       Call_getFee (Some (JStr ''0xB7F03eee7B9F56347e32cC71DaD65B303D5a0E67'')) [''0xabcdef''],
       Call_updatePrices (Some (JStr ''0x5FbDB2315678afecb367f032d93F642f64180aa3''))
         [''0xabcdef''] [''0x'' @ btc_usd_hash] 1000,
       Call_wait ''0x01'',
       Call_getPrice (Some (JStr ''0x5FbDB2315678afecb367f032d93F642f64180aa3''))
         (''0x'' @ btc_usd_hash),
       Call_isPriceFresh (Some (JStr ''0x5FbDB2315678afecb367f032d93F642f64180aa3''))
         (''0x'' @ btc_usd_hash),
       Call_getPriceAge (Some (JStr ''0x5FbDB2315678afecb367f032d93F642f64180aa3''))
         (''0x'' @ btc_usd_hash),
       Call_maxPriceAge (Some (JStr ''0x5FbDB2315678afecb367f032d93F642f64180aa3'')),
       Call_maxDeviationBps (Some (JStr ''0x5FbDB2315678afecb367f032d93F642f64180aa3''))])"
  by (simp add: sample_defs run_defs)

lemma poor_run:
  "updatePrices poor_world sample_config =
     (Inl (new_Error poor_world
             (cross_mark @ '' Insufficient balance. Need 0.000000000000001 ETH, have 0.000000000000000999 ETH'')),
      [Fs_existsSync, Fs_readFileSync,
       Call_getBalance ''0xf39Fd6e51aad88F6F4ce6aB8827279cffFb92266'',
       Call_fetchOracleQuote [btc_usd_hash] ''mainnet'',
       Call_getFee (Some (JStr ''0xB7F03eee7B9F56347e32cC71DaD65B303D5a0E67'')) [''0xabcdef'']])"
  by (simp add: sample_defs run_defs formatValue_eval)

lemma no_file_run:
  "updatePrices no_file_world sample_config =
     (Inl (new_Error no_file_world
             ''deployments.json not found. Please deploy the contract first.''),
      [Fs_existsSync,
       Stderr (cross_mark @ '' deployments.json not found. Please deploy the contract first.'')])"
  by (simp add: sample_defs run_defs new_Error_def)

lemma rpc_down_run:
  "updatePrices rpc_down_world sample_config =
     (Inl \<lparr>message = ''could not detect network'', stack = None\<rparr>,
      [Fs_existsSync, Fs_readFileSync,
       Call_getBalance ''0xf39Fd6e51aad88F6F4ce6aB8827279cffFb92266''])"
  by (simp add: sample_defs run_defs)

lemma keyless_run:
  "updatePrices sample_world keyless_config =
     (Inl (new_Error sample_world (cross_mark @ '' PRIVATE_KEY environment variable is required'')),
      [])"
  by (simp add: sample_defs run_defs)

lemma no_encoded_fetch:
  "fetchFeedData no_encoded_world (''0x'' @ btc_usd_hash) =
     (Inl (new_Error no_encoded_world ''Failed to fetch feed data: No encoded data in response''),
      [Call_fetchOracleQuote [btc_usd_hash] ''mainnet'',
       Stderr (newline @ cross_mark @ '' Error fetching feed data:''),
       Stderr ''   No encoded data in response''])"
  by (simp add: sample_defs run_defs new_Error_def)

lemma no_median_fetch:
  "fetchFeedData no_median_world btc_usd_hash =
     (Inl (new_Error no_median_world ''Failed to fetch feed data: No median response in data''),
      [Call_fetchOracleQuote [btc_usd_hash] ''mainnet'',
       Stderr (newline @ cross_mark @ '' Error fetching feed data:''),
       Stderr ''   No median response in data''])"
  by (simp add: sample_defs run_defs new_Error_def)

subsection \<open>Guarantees of the workflow\<close>

text \<open>
  C5. In a run in which the balance read for the signer is less than the fee that the
  gateway contract quotes, \<open>updatePrices\<close> throws the error whose message names the fee
  needed and the balance held, and the run holds no submission to the consumer contract;
  the process ends with code 1.
\<close>

theorem insufficient_balance_fails_before_submission:
  assumes gb: "Call_getBalance a \<in> set (snd (updatePrices w cfg))"
      and bal: "provider_getBalance w a = Inr balance"
      and gf: "Call_getFee sb ups \<in> set (snd (updatePrices w cfg))"
      and fee: "switchboard_getFee w sb ups = Inr fee"
      and less: "balance < fee"
  shows "fst (updatePrices w cfg)
           = Inl (new_Error w (cross_mark @ '' Insufficient balance. Need ''
                   @ ethers_formatEther w fee @ '' ETH, have ''
                   @ ethers_formatEther w balance @ '' ETH''))
       \<and> list_all (\<lambda>ev. \<not> is_submission ev) (events (main w cfg))
       \<and> exit_code (main w cfg) = 1"
proof -
  let ?gb = "Call_getBalance a" and ?gf = "Call_getFee sb ups"
  let ?short = "new_Error w (cross_mark @ '' Insufficient balance. Need ''
                   @ ethers_formatEther w fee @ '' ETH, have ''
                   @ ethers_formatEther w balance @ '' ETH'')"
  have q: "is_balance_or_fee_query ?gb" "is_balance_or_fee_query ?gf" by simp_all
  note e1 = validateConfiguration_events [of w cfg]
  have "fst (updatePrices w cfg) = Inl ?short
       \<and> list_all (\<lambda>ev. \<not> is_submission ev) (snd (updatePrices w cfg))"
  proof (cases "fst (validateConfiguration w cfg)")
    case (Inl e)
    then have "snd (updatePrices w cfg) = []"
      by (simp add: updatePrices_def bnd_Inl [OF Inl] e1)
    with gb show ?thesis by simp
  next
    case r1: (Inr nc)
    let ?m2 = "loadContractAddresses w cfg nc"
    note e2 = loadContractAddresses_events [of w cfg nc]
    show ?thesis
    proof (cases "fst ?m2")
      case (Inl e)
      then have "snd (updatePrices w cfg) = snd ?m2"
        by (simp add: updatePrices_def bnd_Inr [OF r1] bnd_Inl [OF Inl] e1)
      with gb e2 q show ?thesis by (auto dest: no_query_in_non_network)
    next
      case (Inr p)
      obtain pca sba where p: "p = (pca, sba)" by (cases p)
      note r2 = Inr [unfolded p]
      let ?m3 = "setupProviderAndSigner w cfg nc"
      show ?thesis
      proof (cases "fst ?m3")
        case (Inl e)
        then have t: "snd (updatePrices w cfg) = snd ?m2 @ snd ?m3"
          by (simp add: updatePrices_def bnd_Inr [OF r1] bnd_Inr [OF r2] bnd_Inl [OF Inl] e1)
        from setupProviderAndSigner_shape [of w cfg nc]
        have "?gf \<notin> set (snd ?m3)" by auto
        with gf t e2 q show ?thesis by (auto dest: no_query_in_non_network)
      next
        case r3: (Inr bal')
        from setupProviderAndSigner_shape [of w cfg nc] r3
        obtain addr where t3: "snd ?m3 = [Call_getBalance addr]"
          and b3: "provider_getBalance w addr = Inr bal'"
          by auto
        let ?m4 = "fetchFeedData w (feedHash cfg)"
        show ?thesis
        proof (cases "fst ?m4")
          case (Inl e)
          then have t: "snd (updatePrices w cfg) = snd ?m2 @ snd ?m3 @ snd ?m4"
            by (simp add: updatePrices_def bnd_Inr [OF r1] bnd_Inr [OF r2] bnd_Inr [OF r3]
                bnd_Inl [OF Inl] e1)
          with gf t3 e2 q show ?thesis
            by (auto dest: no_query_in_non_network no_query_in_fetch)
        next
          case r4: (Inr fd)
          let ?m5 = "getRequiredFee w sba bal' fd"
          have pre: "\<not> is_balance_or_fee_query ev" if "ev \<in> set (snd ?m2 @ snd ?m4)" for ev
            using that e2 by (auto dest: no_query_in_non_network no_query_in_fetch)
          show ?thesis
          proof (cases "fst ?m5")
            case r5: (Inl e)
            have t: "snd (updatePrices w cfg) = snd ?m2 @ snd ?m3 @ snd ?m4 @ snd ?m5"
              and r: "fst (updatePrices w cfg) = Inl e"
              by (simp_all add: updatePrices_def bnd_Inr [OF r1] bnd_Inr [OF r2] bnd_Inr [OF r3]
                  bnd_Inr [OF r4] bnd_Inl [OF r5] e1)
            from getRequiredFee_shape [of w sba bal' fd]
            have s5: "snd ?m5 = [] \<or> snd ?m5 = [Call_getFee sba [fd_encoded fd]]" by auto
            from gb t t3 s5 pre [of ?gb] have a: "a = addr" by auto
            from gf t t3 s5 pre [of ?gf]
            have f: "snd ?m5 = [Call_getFee sba [fd_encoded fd]]" "sb = sba"
              "ups = [fd_encoded fd]"
              by auto
            from a bal b3 have bb: "bal' = balance" by simp
            from getRequiredFee_shape [of w sba bal' fd] f fee less bb r5
            have "e = ?short" by auto
            moreover have "list_all (\<lambda>ev. \<not> is_submission ev) (snd (updatePrices w cfg))"
              using no_submission_in_non_network [OF e2]
                no_submission_in_fetch [of w "feedHash cfg"]
              by (simp add: t t3 f)
            ultimately show ?thesis using r by simp
          next
            case r5: (Inr fee')
            from getRequiredFee_shape [of w sba bal' fd] r5
            have f5: "snd ?m5 = [Call_getFee sba [fd_encoded fd]]"
              and v5: "switchboard_getFee w sba [fd_encoded fd] = Inr fee'"
              and ge: "\<not> bal' < fee'"
              by (auto split: sum.splits if_splits)
            let ?m6 = "submitTransaction w cfg pca fd fee'"
            let ?m7 = "verifyPriceUpdate w cfg pca"
            have "\<exists>rest. snd (updatePrices w cfg)
                           = snd ?m2 @ snd ?m3 @ snd ?m4 @ snd ?m5 @ rest
                \<and> list_all (\<lambda>ev. \<not> is_balance_or_fee_query ev) rest"
            proof (cases "fst ?m6")
              case (Inl e)
              then show ?thesis
                using submitTransaction_events [of w cfg pca fd fee']
                by (simp add: updatePrices_def bnd_Inr [OF r1] bnd_Inr [OF r2] bnd_Inr [OF r3]
                    bnd_Inr [OF r4] bnd_Inr [OF r5] bnd_Inl [OF Inl] e1)
            next
              case (Inr rc)
              then show ?thesis
                using submitTransaction_events [of w cfg pca fd fee']
                  verifyPriceUpdate_events [of w cfg pca]
                by (simp add: updatePrices_def bnd_Inr [OF r1] bnd_Inr [OF r2] bnd_Inr [OF r3]
                    bnd_Inr [OF r4] bnd_Inr [OF r5] bnd_Inr [OF Inr] e1)
            qed
            then obtain rest
              where t: "snd (updatePrices w cfg) = snd ?m2 @ snd ?m3 @ snd ?m4 @ snd ?m5 @ rest"
                and nr: "list_all (\<lambda>ev. \<not> is_balance_or_fee_query ev) rest"
              by blast
            from nr have post: "\<not> is_balance_or_fee_query ev" if "ev \<in> set rest" for ev
              using that by (auto simp: list_all_iff)
            from gb t t3 f5 pre [of ?gb] post [of ?gb] have a: "a = addr" by auto
            from gf t t3 f5 pre [of ?gf] post [of ?gf]
            have "sb = sba" "ups = [fd_encoded fd]" by auto
            with fee v5 have "fee' = fee" by simp
            moreover from a bal b3 have "bal' = balance" by simp
            ultimately show ?thesis using ge less by simp
          qed
        qed
      qed
    qed
  qed
  then have r: "fst (updatePrices w cfg) = Inl ?short"
    and s: "list_all (\<lambda>ev. \<not> is_submission ev) (snd (updatePrices w cfg))"
    by simp_all
  from s have "list_all (\<lambda>ev. \<not> is_submission ev) (events (main w cfg))"
    by (rule main_events_all) (rule error_report_events)
  with r main_of_failure [OF r] show ?thesis by simp
qed

theorem insufficient_balance_fails_before_submission_witness:
  "Call_getBalance ''0xf39Fd6e51aad88F6F4ce6aB8827279cffFb92266''
     \<in> set (snd (updatePrices poor_world sample_config))
   \<and> provider_getBalance poor_world ''0xf39Fd6e51aad88F6F4ce6aB8827279cffFb92266'' = Inr 999
   \<and> Call_getFee (Some (JStr ''0xB7F03eee7B9F56347e32cC71DaD65B303D5a0E67'')) [''0xabcdef'']
     \<in> set (snd (updatePrices poor_world sample_config))
   \<and> switchboard_getFee poor_world (Some (JStr ''0xB7F03eee7B9F56347e32cC71DaD65B303D5a0E67''))
       [''0xabcdef''] = Inr 1000
   \<and> (999::int) < 1000
   \<and> fst (updatePrices poor_world sample_config)
       = Inl (new_Error poor_world (cross_mark @ '' Insufficient balance. Need ''
               @ ethers_formatEther poor_world 1000 @ '' ETH, have ''
               @ ethers_formatEther poor_world 999 @ '' ETH''))
   \<and> list_all (\<lambda>ev. \<not> is_submission ev) (events (main poor_world sample_config))
   \<and> exit_code (main poor_world sample_config) = 1"
proof -
  have gb: "Call_getBalance ''0xf39Fd6e51aad88F6F4ce6aB8827279cffFb92266''
      \<in> set (snd (updatePrices poor_world sample_config))"
    by (simp add: poor_run)
  have bal: "provider_getBalance poor_world ''0xf39Fd6e51aad88F6F4ce6aB8827279cffFb92266''
      = Inr 999"
    by (simp add: poor_world_def)
  have gf: "Call_getFee (Some (JStr ''0xB7F03eee7B9F56347e32cC71DaD65B303D5a0E67''))
      [''0xabcdef''] \<in> set (snd (updatePrices poor_world sample_config))"
    by (simp add: poor_run)
  have fee: "switchboard_getFee poor_world
      (Some (JStr ''0xB7F03eee7B9F56347e32cC71DaD65B303D5a0E67'')) [''0xabcdef''] = Inr 1000"
    by (simp add: poor_world_def sample_world_def)
  have less: "(999::int) < 1000" by simp
  from insufficient_balance_fails_before_submission [OF gb bal gf fee less] gb bal gf fee less
  show ?thesis by blast
qed

text \<open>
  C6. When the gateway answers without the encoded payload, or with it but without a
  first median response, \<open>fetchFeedData\<close> throws an error whose message is the prefix
  \<^verbatim>\<open>Failed to fetch feed data: \<close> before the message that names the missing field, the
  same message goes to the error stream, and its events hold the one gateway call. No run
  of the script makes more than one gateway call.
\<close>

theorem gateway_response_missing_field:
  assumes "crossbar_fetchOracleQuote w [feedHashForCrossbar h] ''mainnet'' = Inr response"
  shows "(lacks_encoded response \<longrightarrow>
            fst (fetchFeedData w h)
              = Inl (new_Error w ''Failed to fetch feed data: No encoded data in response'')
            \<and> Stderr ''   No encoded data in response'' \<in> set (snd (fetchFeedData w h)))
     \<and> (\<not> lacks_encoded response \<and> lacks_median response \<longrightarrow>
            fst (fetchFeedData w h)
              = Inl (new_Error w ''Failed to fetch feed data: No median response in data'')
            \<and> Stderr ''   No median response in data'' \<in> set (snd (fetchFeedData w h)))
     \<and> filter is_gateway_call (snd (fetchFeedData w h))
           = [Call_fetchOracleQuote [feedHashForCrossbar h] ''mainnet'']
     \<and> length (filter is_gateway_call (events (main w cfg))) \<le> 1"
proof -
  have a: "lacks_encoded response \<longrightarrow>
            fst (fetchFeedData w h)
              = Inl (new_Error w ''Failed to fetch feed data: No encoded data in response'')
            \<and> Stderr ''   No encoded data in response'' \<in> set (snd (fetchFeedData w h))"
    using assms
    by (auto simp: fetchFeedData_def first_medianResponse_def io_defs Let_def lacks_encoded_def new_Error_def
        split: option.splits)
  have b: "\<not> lacks_encoded response \<and> lacks_median response \<longrightarrow>
            fst (fetchFeedData w h)
              = Inl (new_Error w ''Failed to fetch feed data: No median response in data'')
            \<and> Stderr ''   No median response in data'' \<in> set (snd (fetchFeedData w h))"
    using assms
    by (auto simp: fetchFeedData_def first_medianResponse_def io_defs Let_def lacks_encoded_def lacks_median_def
        new_Error_def split: option.splits list.splits)
  have c: "filter is_gateway_call (snd (fetchFeedData w h))
           = [Call_fetchOracleQuote [feedHashForCrossbar h] ''mainnet'']"
    by (auto simp: fetchFeedData_def first_medianResponse_def io_defs Let_def Date_toISOString_def
        split: option.splits list.splits sum.splits if_splits)
  have d: "length (filter is_gateway_call (events (main w cfg))) \<le> 1"
  proof (cases "fst (updatePrices w cfg)")
    case (Inl e)
    have "filter is_gateway_call (error_report e) = []"
      using error_report_events(3) [of e] by (simp add: list_all_iff filter_empty_conv)
    with gateway_calls_at_most_once [of w cfg] Inl show ?thesis
      by (simp add: main_of_failure)
  next
    case (Inr u)
    with gateway_calls_at_most_once [of w cfg] show ?thesis by (simp add: main_of_success)
  qed
  from a b c d show ?thesis by blast
qed

theorem gateway_response_missing_field_witness:
  "crossbar_fetchOracleQuote no_encoded_world [feedHashForCrossbar (''0x'' @ btc_usd_hash)]
      ''mainnet'' = Inr (sample_quote\<lparr>encoded := None\<rparr>)
   \<and> lacks_encoded (sample_quote\<lparr>encoded := None\<rparr>)
   \<and> fst (fetchFeedData no_encoded_world (''0x'' @ btc_usd_hash))
       = Inl (new_Error no_encoded_world
               ''Failed to fetch feed data: No encoded data in response'')
   \<and> crossbar_fetchOracleQuote no_median_world [feedHashForCrossbar btc_usd_hash]
      ''mainnet'' = Inr (sample_quote\<lparr>medianResponses := Some []\<rparr>)
   \<and> \<not> lacks_encoded (sample_quote\<lparr>medianResponses := Some []\<rparr>)
   \<and> lacks_median (sample_quote\<lparr>medianResponses := Some []\<rparr>)
   \<and> fst (fetchFeedData no_median_world btc_usd_hash)
       = Inl (new_Error no_median_world
               ''Failed to fetch feed data: No median response in data'')
   \<and> filter is_gateway_call (snd (fetchFeedData no_median_world btc_usd_hash))
       = [Call_fetchOracleQuote [btc_usd_hash] ''mainnet'']"
proof -
  have e: "crossbar_fetchOracleQuote no_encoded_world
      [feedHashForCrossbar (''0x'' @ btc_usd_hash)] ''mainnet''
      = Inr (sample_quote\<lparr>encoded := None\<rparr>)"
    by (simp add: no_encoded_world_def)
  have m: "crossbar_fetchOracleQuote no_median_world [feedHashForCrossbar btc_usd_hash]
      ''mainnet'' = Inr (sample_quote\<lparr>medianResponses := Some []\<rparr>)"
    by (simp add: no_median_world_def)
  have le: "lacks_encoded (sample_quote\<lparr>encoded := None\<rparr>)"
    by (simp add: lacks_encoded_def)
  have lm: "\<not> lacks_encoded (sample_quote\<lparr>medianResponses := Some []\<rparr>)"
    "lacks_median (sample_quote\<lparr>medianResponses := Some []\<rparr>)"
    by (simp_all add: lacks_encoded_def lacks_median_def first_medianResponse_def
        sample_quote_def)
  have f: "feedHashForCrossbar btc_usd_hash = btc_usd_hash"
    by (simp add: feedHashForCrossbar_def normalizeFeedHash_def startsWith_def btc_usd_hash_def)
  from gateway_response_missing_field [OF e, of sample_config]
    gateway_response_missing_field [OF m, of sample_config] e m le lm f
  show ?thesis by simp
qed

text \<open>
  C7. When the deployments file does not exist, the run ends with an error (the one of
  \<open>loadDeployments\<close> whenever the configuration is valid), the process ends with code 1,
  and the run holds no network call: no balance query, gateway fetch, fee query,
  submission or read-back.
\<close>

theorem missing_deployments_no_network_call:
  assumes "\<not> fs_existsSync w"
  shows "isl (fst (updatePrices w cfg))
     \<and> list_all (\<lambda>ev. \<not> is_network_call ev) (events (main w cfg))
     \<and> exit_code (main w cfg) = 1
     \<and> (rpcUrl cfg \<noteq> [] \<and> privateKey cfg \<noteq> [] \<and> NETWORKS_get (network cfg) \<noteq> None \<longrightarrow>
          fst (updatePrices w cfg)
            = Inl (new_Error w ''deployments.json not found. Please deploy the contract first.''))"
proof -
  note u = updatePrices_missing_file [OF assms, of cfg]
  from u obtain e where e: "fst (updatePrices w cfg) = Inl e"
    by (cases "fst (updatePrices w cfg)") auto
  from u have "list_all (\<lambda>ev. \<not> is_network_call ev) (events (main w cfg))"
    by (intro main_events_all error_report_events) simp
  with main_of_failure [OF e] u show ?thesis by simp
qed

theorem missing_deployments_no_network_call_witness:
  "\<not> fs_existsSync no_file_world
   \<and> rpcUrl sample_config \<noteq> [] \<and> privateKey sample_config \<noteq> []
   \<and> NETWORKS_get (network sample_config) \<noteq> None
   \<and> fst (updatePrices no_file_world sample_config)
       = Inl (new_Error no_file_world
               ''deployments.json not found. Please deploy the contract first.'')
   \<and> list_all (\<lambda>ev. \<not> is_network_call ev) (events (main no_file_world sample_config))
   \<and> exit_code (main no_file_world sample_config) = 1"
proof -
  have f: "\<not> fs_existsSync no_file_world"
    by (simp add: no_file_world_def)
  have c: "rpcUrl sample_config \<noteq> [] \<and> privateKey sample_config \<noteq> []
      \<and> NETWORKS_get (network sample_config) \<noteq> None"
    by (simp add: sample_defs NETWORKS_get_def NETWORKS_def)
  from missing_deployments_no_network_call [OF f, of sample_config] f c
  show ?thesis by blast
qed

text \<open>
  C8. The process ends with code 0 exactly when \<open>updatePrices\<close> returns, and with code 1
  exactly when it throws; it throws when the configuration is not valid and whenever a
  call it made to the file system, the gateway or the ledger has failed. The handler then
  writes the message of the error to the error stream, and its stack when it has one.
\<close>

theorem main_exit_code:
  "(exit_code (main w cfg) = 0) = (fst (updatePrices w cfg) = Inr ())
   \<and> (exit_code (main w cfg) = 1) = isl (fst (updatePrices w cfg))
   \<and> (rpcUrl cfg = [] \<or> privateKey cfg = [] \<or> NETWORKS_get (network cfg) = None \<longrightarrow>
        exit_code (main w cfg) = 1)
   \<and> (list_ex (call_failed w) (events (main w cfg)) \<longrightarrow> exit_code (main w cfg) = 1)
   \<and> (\<forall>error. fst (updatePrices w cfg) = Inl error \<longrightarrow>
         Stderr (newline @ message error @ newline) \<in> set (events (main w cfg))
         \<and> (\<forall>s. stack error = Some s \<and> s \<noteq> [] \<longrightarrow> Stderr s \<in> set (events (main w cfg))))"
proof (cases "fst (updatePrices w cfg)")
  case (Inl e)
  have "Stderr (newline @ message e @ newline) \<in> set (error_report e)"
    and "\<forall>s. stack e = Some s \<and> s \<noteq> [] \<longrightarrow> Stderr s \<in> set (error_report e)"
    by (simp_all add: error_report_def)
  with main_of_failure [OF Inl] Inl show ?thesis by simp
next
  case (Inr u)
  have v: "\<not> (rpcUrl cfg = [] \<or> privateKey cfg = [] \<or> NETWORKS_get (network cfg) = None)"
  proof
    assume "rpcUrl cfg = [] \<or> privateKey cfg = [] \<or> NETWORKS_get (network cfg) = None"
    then have "isl (fst (validateConfiguration w cfg))" by (rule validateConfiguration_Inl)
    then obtain e where "fst (validateConfiguration w cfg) = Inl e"
      by (cases "fst (validateConfiguration w cfg)") auto
    then have "fst (updatePrices w cfg) = Inl e" by (simp add: updatePrices_def bnd_Inl)
    with Inr show False by simp
  qed
  have "\<not> list_ex (call_failed w) (snd (updatePrices w cfg))"
    using updatePrices_fails_with_its_calls [of w cfg] Inr
    by (auto simp: fails_with_its_calls_def)
  with main_of_success [OF Inr] Inr v show ?thesis by simp
qed

theorem main_exit_code_witness:
  "fst (updatePrices sample_world sample_config) = Inr ()
   \<and> exit_code (main sample_world sample_config) = 0
   \<and> privateKey keyless_config = []
   \<and> exit_code (main sample_world keyless_config) = 1
   \<and> list_ex (call_failed rpc_down_world) (events (main rpc_down_world sample_config))
   \<and> exit_code (main rpc_down_world sample_config) = 1
   \<and> fst (updatePrices no_file_world sample_config)
       = Inl (new_Error no_file_world
               ''deployments.json not found. Please deploy the contract first.'')
   \<and> Stderr (newline @ ''deployments.json not found. Please deploy the contract first.''
              @ newline) \<in> set (events (main no_file_world sample_config))
   \<and> Stderr ''Error: deployments.json not found. Please deploy the contract first.''
       \<in> set (events (main no_file_world sample_config))"
proof -
  have ok: "fst (updatePrices sample_world sample_config) = Inr ()"
    by (simp add: sample_run)
  have k: "privateKey keyless_config = []"
    by (simp add: sample_defs)
  have d: "list_ex (call_failed rpc_down_world) (events (main rpc_down_world sample_config))"
    by (simp add: main_def rpc_down_run) (simp add: rpc_down_world_def)
  have n: "fst (updatePrices no_file_world sample_config)
      = Inl (new_Error no_file_world
               ''deployments.json not found. Please deploy the contract first.'')"
    by (simp add: no_file_run)
  have m: "message (new_Error no_file_world
               ''deployments.json not found. Please deploy the contract first.'')
      = ''deployments.json not found. Please deploy the contract first.''"
    and s: "stack (new_Error no_file_world
               ''deployments.json not found. Please deploy the contract first.'')
      = Some ''Error: deployments.json not found. Please deploy the contract first.''"
    by (simp_all add: new_Error_def no_file_world_def sample_world_def)
  from main_exit_code [of sample_world sample_config] main_exit_code [of sample_world keyless_config]
    main_exit_code [of rpc_down_world sample_config] main_exit_code [of no_file_world sample_config]
    ok k d n m s
  show ?thesis by auto
qed

text \<open>
  C9. The two thresholds read from the environment are stored in the configuration and
  never read: whatever values they have, all events of the run (calls with their
  arguments, lines of the error stream) and the exit code are the same.
\<close>

theorem config_age_deviation_unused:
  "main w (cfg\<lparr>maxPriceAge := a, maxDeviationBps := b\<rparr>) = main w cfg
   \<and> script w (e\<lparr>MAX_PRICE_AGE := x, MAX_DEVIATION_BPS := y\<rparr>) = script w e"
proof -
  have "validateConfiguration w (cfg\<lparr>maxPriceAge := a, maxDeviationBps := b\<rparr>)
      = validateConfiguration w cfg" for cfg a b
    by (simp add: validateConfiguration_def cong: option.case_cong if_cong)
  moreover have "loadContractAddresses w (cfg\<lparr>maxPriceAge := a, maxDeviationBps := b\<rparr>) nc
      = loadContractAddresses w cfg nc" for cfg a b nc
    by (simp add: loadContractAddresses_def cong: option.case_cong if_cong)
  moreover have "setupProviderAndSigner w (cfg\<lparr>maxPriceAge := a, maxDeviationBps := b\<rparr>) nc
      = setupProviderAndSigner w cfg nc" for cfg a b nc
    by (simp add: setupProviderAndSigner_def)
  moreover have
    "submitTransaction w (cfg\<lparr>maxPriceAge := a, maxDeviationBps := b\<rparr>) pca fd fee
      = submitTransaction w cfg pca fd fee" for cfg a b pca fd fee
    by (simp add: submitTransaction_def)
  moreover have "verifyPriceUpdate w (cfg\<lparr>maxPriceAge := a, maxDeviationBps := b\<rparr>) pca
      = verifyPriceUpdate w cfg pca" for cfg a b pca
    by (simp add: verifyPriceUpdate_def)
  ultimately have u:
    "updatePrices w (cfg\<lparr>maxPriceAge := a, maxDeviationBps := b\<rparr>) = updatePrices w cfg"
    for cfg a b
    by (simp add: updatePrices_def)
  have m: "main w (cfg\<lparr>maxPriceAge := a, maxDeviationBps := b\<rparr>) = main w cfg" for cfg a b
    by (simp add: main_def u)
  have "load_config w (e\<lparr>MAX_PRICE_AGE := x, MAX_DEVIATION_BPS := y\<rparr>)
      = (load_config w e)\<lparr>maxPriceAge := rt_parseInt w (or_default x ''300''),
                            maxDeviationBps := rt_parseInt w (or_default y ''1000'')\<rparr>"
    by (simp add: load_config_def)
  then show ?thesis by (simp add: script_def m)
qed

theorem config_age_deviation_unused_witness:
  "script sample_world (sample_env\<lparr>MAX_PRICE_AGE := Some ''1'', MAX_DEVIATION_BPS := Some ''abc''\<rparr>)
     = script sample_world sample_env
   \<and> maxPriceAge (load_config sample_world (sample_env\<lparr>MAX_PRICE_AGE := Some ''1''\<rparr>))
       \<noteq> maxPriceAge (load_config sample_world sample_env)"
  using config_age_deviation_unused [where w = sample_world and cfg = sample_config
      and a = None and b = None and e = sample_env and x = "Some ''1''" and y = "Some ''abc''"]
  by (simp add: load_config_def sample_env_def or_default_def sample_world_def)

end
